theory Spec2Isabelle
  imports Complex_Main
begin

section \<open>Scalars\<close>

text \<open>
  The program computes with C++ \<^verbatim>\<open>double\<close> and \<^verbatim>\<open>int\<close>.

  A \<^verbatim>\<open>double\<close> is modelled by its value: a real number, one of the two infinities, or
  NaN. The exceptional values follow IEEE 754 (a comparison with NaN is false, a positive
  number divided by zero is \<open>+\<infinity>\<close>, \<open>\<infinity> - \<infinity>\<close> is NaN). The operations \<open>+\<close>, \<open>-\<close>, \<open>*\<close>,
  \<open>/\<close> on finite values are exact, without rounding and without overflow to infinity; the
  operations of the time loop, where the last bit matters, are the rounded \<open>add64\<close> and
  \<open>sub64\<close> defined with the loop. The two zeros are
  identified with \<open>+0\<close> (the divisors of the program that are zero in a run with positive
  parameters are the two velocity maxima, each an absolute value or the literal \<^verbatim>\<open>0.\<close>,
  never \<open>-0\<close>).

  An \<^verbatim>\<open>int\<close> is modelled by \<^typ>\<open>int\<close>; cell counts are far away from the 32-bit limit.
\<close>

datatype double = Finite real | PInf | NInf | NaN

instantiation double :: "{plus, uminus, minus, times, inverse, abs, ord}"
begin

fun plus_double :: "double \<Rightarrow> double \<Rightarrow> double" where
  "plus_double NaN _ = NaN"
| "plus_double _ NaN = NaN"
| "plus_double (Finite a) (Finite b) = Finite (a + b)"
| "plus_double PInf NInf = NaN"
| "plus_double NInf PInf = NaN"
| "plus_double PInf _ = PInf"
| "plus_double _ PInf = PInf"
| "plus_double NInf _ = NInf"
| "plus_double _ NInf = NInf"

fun uminus_double :: "double \<Rightarrow> double" where
  "uminus_double (Finite a) = Finite (- a)"
| "uminus_double PInf = NInf"
| "uminus_double NInf = PInf"
| "uminus_double NaN = NaN"

definition minus_double :: "double \<Rightarrow> double \<Rightarrow> double" where
  "minus_double a b = a + (- b)"

fun times_double :: "double \<Rightarrow> double \<Rightarrow> double" where
  "times_double NaN _ = NaN"
| "times_double _ NaN = NaN"
| "times_double (Finite a) (Finite b) = Finite (a * b)"
| "times_double PInf (Finite b) = (if 0 < b then PInf else if b < 0 then NInf else NaN)"
| "times_double NInf (Finite b) = (if 0 < b then NInf else if b < 0 then PInf else NaN)"
| "times_double (Finite a) PInf = (if 0 < a then PInf else if a < 0 then NInf else NaN)"
| "times_double (Finite a) NInf = (if 0 < a then NInf else if a < 0 then PInf else NaN)"
| "times_double PInf PInf = PInf"
| "times_double PInf NInf = NInf"
| "times_double NInf PInf = NInf"
| "times_double NInf NInf = PInf"

fun divide_double :: "double \<Rightarrow> double \<Rightarrow> double" where
  "divide_double NaN _ = NaN"
| "divide_double _ NaN = NaN"
| "divide_double (Finite a) (Finite b) =
     (if b \<noteq> 0 then Finite (a / b)
      else if 0 < a then PInf else if a < 0 then NInf else NaN)"
| "divide_double (Finite a) PInf = Finite 0"
| "divide_double (Finite a) NInf = Finite 0"
| "divide_double PInf (Finite b) = (if 0 \<le> b then PInf else NInf)"
| "divide_double NInf (Finite b) = (if 0 \<le> b then NInf else PInf)"
| "divide_double _ _ = NaN"

definition inverse_double :: "double \<Rightarrow> double" where
  "inverse_double a = divide (Finite 1) a"

fun abs_double :: "double \<Rightarrow> double" where
  "abs_double (Finite a) = Finite \<bar>a\<bar>"
| "abs_double PInf = PInf"
| "abs_double NInf = PInf"
| "abs_double NaN = NaN"

fun less_double :: "double \<Rightarrow> double \<Rightarrow> bool" where
  "less_double (Finite a) (Finite b) = (a < b)"
| "less_double (Finite a) PInf = True"
| "less_double NInf (Finite b) = True"
| "less_double NInf PInf = True"
| "less_double _ _ = False"

definition less_eq_double :: "double \<Rightarrow> double \<Rightarrow> bool" where
  "less_eq_double a b = (a < b \<or> (a \<noteq> NaN \<and> a = b))"

instance ..

end

text \<open>\<^verbatim>\<open>a == b\<close> on doubles: NaN is equal to nothing.\<close>

definition deq :: "double \<Rightarrow> double \<Rightarrow> bool" where
  "deq a b = (a \<noteq> NaN \<and> a = b)"

text \<open>\<^verbatim>\<open>std::min(a, b)\<close> is \<^verbatim>\<open>(b < a) ? b : a\<close>.\<close>

definition std_min :: "double \<Rightarrow> double \<Rightarrow> double" where
  "std_min a b = (if b < a then b else a)"

text \<open>
  \<^verbatim>\<open>std::min({a, b, c})\<close> is \<^verbatim>\<open>*std::min_element\<close>: the first element is the
  candidate and a later one replaces it when it compares less.
\<close>

definition std_min3 :: "double \<Rightarrow> double \<Rightarrow> double \<Rightarrow> double" where
  "std_min3 a b c = (let m = a; m = (if b < m then b else m) in if c < m then c else m)"

fun isFinite :: "double \<Rightarrow> bool" where
  "isFinite (Finite a) = True"
| "isFinite _ = False"

section \<open>Errors and sequencing\<close>

text \<open>
  An accessor whose index check fails prints a line to \<^verbatim>\<open>std::cout\<close> and executes
  \<^verbatim>\<open>throw;\<close> with no exception in flight, which is \<^verbatim>\<open>std::terminate\<close>: the run ends.
  The model returns the content of the printed line as the error value
  \<open>IndexOutOfRange axis field index begin end\<close> for the line
  \<^verbatim>\<open>"<axis>-Index of <field> out of bounds error for index <index> in range <begin> to <end>"\<close>,
  and every caller passes an error on. \<^verbatim>\<open>initialize\<close> ends the run in the same way on a
  pressure solver name that it does not know.
\<close>

datatype error = IndexOutOfRange string string int int int | UnknownPressureSolver string

definition ebind :: "error + 'a \<Rightarrow> ('a \<Rightarrow> error + 'b) \<Rightarrow> error + 'b" where
  "ebind m f = (case m of Inl e \<Rightarrow> Inl e | Inr x \<Rightarrow> f x)"

section \<open>The staggered grid (0\_staggered\_grid.cpp)\<close>

text \<open>
  Modelled from the spec: the class \<^verbatim>\<open>FieldVariable\<close> (and the \<^verbatim>\<open>Array2D\<close> behind it) is
  not among the sources. The spec describes a field as a 2-D array of floating-point
  values with its storage extents, a spatial offset and the mesh spacing; the model keeps
  these three and the contents as a function from the storage index \<open>(x, y)\<close> to the value.
  \<^verbatim>\<open>field(x, y)\<close> designates the storage cell \<open>(x, y)\<close>.

  A member \<^verbatim>\<open>name_\<close> of a class is the record field \<open>m_name\<close>.
\<close>

record FieldVariable =
  m_size :: "int \<times> int"
  m_origin :: "double \<times> double"
  m_fieldMeshWidth :: "double \<times> double"
  m_data :: "int \<times> int \<Rightarrow> double"

definition FieldVariable_new ::
  "int \<times> int \<Rightarrow> double \<times> double \<Rightarrow> double \<times> double \<Rightarrow> FieldVariable" where
  "FieldVariable_new sz origin meshWidth =
     \<lparr>m_size = sz, m_origin = origin, m_fieldMeshWidth = meshWidth, m_data = (\<lambda>_. Finite 0)\<rparr>"

record StaggeredGrid =
  m_u :: FieldVariable
  m_v :: FieldVariable
  m_p :: FieldVariable
  m_f :: FieldVariable
  m_g :: FieldVariable
  m_rhs :: FieldVariable
  m_meshWidth :: "double \<times> double"
  m_nCells :: "int \<times> int"

definition StaggeredGrid_new :: "int \<times> int \<Rightarrow> double \<times> double \<Rightarrow> StaggeredGrid" where
  "StaggeredGrid_new nCells meshWidth =
     \<lparr>m_u = FieldVariable_new (fst nCells + 1, snd nCells + 2)
             (Finite 0, snd meshWidth / Finite 2) meshWidth,
      m_v = FieldVariable_new (fst nCells + 2, snd nCells + 1)
             (fst meshWidth / Finite 2, Finite 0) meshWidth,
      m_p = FieldVariable_new (fst nCells + 2, snd nCells + 2)
             (fst meshWidth / Finite 2, snd meshWidth / Finite 2) meshWidth,
      m_f = FieldVariable_new (fst nCells + 1, snd nCells + 2)
             (Finite 0, snd meshWidth / Finite 2) meshWidth,
      m_g = FieldVariable_new (fst nCells + 2, snd nCells + 1)
             (fst meshWidth / Finite 2, Finite 0) meshWidth,
      m_rhs = FieldVariable_new (fst nCells + 2, snd nCells + 2)
             (fst meshWidth / Finite 2, snd meshWidth / Finite 2) meshWidth,
      m_meshWidth = meshWidth,
      m_nCells = nCells\<rparr>"

definition dx :: "StaggeredGrid \<Rightarrow> double" where
  "dx d = fst (m_meshWidth d)"

definition dy :: "StaggeredGrid \<Rightarrow> double" where
  "dy d = snd (m_meshWidth d)"

definition uIBegin :: "StaggeredGrid \<Rightarrow> int" where
  "uIBegin d = -1"

definition uIEnd :: "StaggeredGrid \<Rightarrow> int" where
  "uIEnd d = fst (m_nCells d)"

definition uJBegin :: "StaggeredGrid \<Rightarrow> int" where
  "uJBegin d = -1"

definition uJEnd :: "StaggeredGrid \<Rightarrow> int" where
  "uJEnd d = snd (m_nCells d) + 1"

definition vIBegin :: "StaggeredGrid \<Rightarrow> int" where
  "vIBegin d = -1"

definition vIEnd :: "StaggeredGrid \<Rightarrow> int" where
  "vIEnd d = fst (m_nCells d) + 1"

definition vJBegin :: "StaggeredGrid \<Rightarrow> int" where
  "vJBegin d = -1"

definition vJEnd :: "StaggeredGrid \<Rightarrow> int" where
  "vJEnd d = snd (m_nCells d)"

definition pIBegin :: "StaggeredGrid \<Rightarrow> int" where
  "pIBegin d = -1"

definition pIEnd :: "StaggeredGrid \<Rightarrow> int" where
  "pIEnd d = fst (m_nCells d) + 1"

definition pJBegin :: "StaggeredGrid \<Rightarrow> int" where
  "pJBegin d = -1"

definition pJEnd :: "StaggeredGrid \<Rightarrow> int" where
  "pJEnd d = snd (m_nCells d) + 1"

subsection \<open>Accessors\<close>

text \<open>
  Every accessor checks \<open>i\<close>, then \<open>j\<close>, then shifts both by one. The accessors that return
  \<^verbatim>\<open>double&\<close> are modelled by the storage cell they designate (\<open>u_ref\<close>, ...), with a read
  (\<open>u_at\<close>) and a write (\<open>u_set\<close>) through it; the \<^verbatim>\<open>const\<close> overloads of \<open>u\<close>, \<open>v\<close> and \<open>p\<close>
  return the value (\<open>u_const\<close>, ...). The printed axis letter is the source's: the
  \<open>j\<close>-check of the non-const \<open>u\<close> prints \<^verbatim>\<open>i-Index\<close>.
\<close>

definition u_const :: "StaggeredGrid \<Rightarrow> int \<Rightarrow> int \<Rightarrow> error + double" where
  "u_const d i j =
     (if \<not> (i \<ge> uIBegin d \<and> i < uIEnd d)
      then Inl (IndexOutOfRange ''i'' ''u'' i (uIBegin d) (uIEnd d))
      else if \<not> (j \<ge> uJBegin d \<and> j < uJEnd d)
      then Inl (IndexOutOfRange ''j'' ''u'' j (uJBegin d) (uJEnd d))
      else let x = i + 1; y = j + 1 in Inr (m_data (m_u d) (x, y)))"

definition u_ref :: "StaggeredGrid \<Rightarrow> int \<Rightarrow> int \<Rightarrow> error + int \<times> int" where
  "u_ref d i j =
     (if \<not> (i \<ge> uIBegin d \<and> i < uIEnd d)
      then Inl (IndexOutOfRange ''i'' ''u'' i (uIBegin d) (uIEnd d))
      else if \<not> (j \<ge> uJBegin d \<and> j < uJEnd d)
      then Inl (IndexOutOfRange ''i'' ''u'' j (uJBegin d) (uJEnd d))
      else let x = i + 1; y = j + 1 in Inr (x, y))"

definition v_const :: "StaggeredGrid \<Rightarrow> int \<Rightarrow> int \<Rightarrow> error + double" where
  "v_const d i j =
     (if \<not> (i \<ge> vIBegin d \<and> i < vIEnd d)
      then Inl (IndexOutOfRange ''i'' ''v'' i (vIBegin d) (vIEnd d))
      else if \<not> (j \<ge> vJBegin d \<and> j < vJEnd d)
      then Inl (IndexOutOfRange ''j'' ''v'' j (vJBegin d) (vJEnd d))
      else let x = i + 1; y = j + 1 in Inr (m_data (m_v d) (x, y)))"

definition v_ref :: "StaggeredGrid \<Rightarrow> int \<Rightarrow> int \<Rightarrow> error + int \<times> int" where
  "v_ref d i j =
     (if \<not> (i \<ge> vIBegin d \<and> i < vIEnd d)
      then Inl (IndexOutOfRange ''i'' ''v'' i (vIBegin d) (vIEnd d))
      else if \<not> (j \<ge> vJBegin d \<and> j < vJEnd d)
      then Inl (IndexOutOfRange ''j'' ''v'' j (vJBegin d) (vJEnd d))
      else let x = i + 1; y = j + 1 in Inr (x, y))"

definition p_const :: "StaggeredGrid \<Rightarrow> int \<Rightarrow> int \<Rightarrow> error + double" where
  "p_const d i j =
     (if \<not> (i \<ge> pIBegin d \<and> i < pIEnd d)
      then Inl (IndexOutOfRange ''i'' ''p'' i (pIBegin d) (pIEnd d))
      else if \<not> (j \<ge> pJBegin d \<and> j < pJEnd d)
      then Inl (IndexOutOfRange ''j'' ''p'' j (pJBegin d) (pJEnd d))
      else let x = i + 1; y = j + 1 in Inr (m_data (m_p d) (x, y)))"

definition p_ref :: "StaggeredGrid \<Rightarrow> int \<Rightarrow> int \<Rightarrow> error + int \<times> int" where
  "p_ref d i j =
     (if \<not> (i \<ge> pIBegin d \<and> i < pIEnd d)
      then Inl (IndexOutOfRange ''i'' ''p'' i (pIBegin d) (pIEnd d))
      else if \<not> (j \<ge> pJBegin d \<and> j < pJEnd d)
      then Inl (IndexOutOfRange ''j'' ''p'' j (pJBegin d) (pJEnd d))
      else let x = i + 1; y = j + 1 in Inr (x, y))"

definition rhs_ref :: "StaggeredGrid \<Rightarrow> int \<Rightarrow> int \<Rightarrow> error + int \<times> int" where
  "rhs_ref d i j =
     (if \<not> (i \<ge> pIBegin d \<and> i < pIEnd d)
      then Inl (IndexOutOfRange ''i'' ''rhs'' i (pIBegin d) (pIEnd d))
      else if \<not> (j \<ge> pJBegin d \<and> j < pJEnd d)
      then Inl (IndexOutOfRange ''j'' ''rhs'' j (pJBegin d) (pJEnd d))
      else let x = i + 1; y = j + 1 in Inr (x, y))"

definition f_ref :: "StaggeredGrid \<Rightarrow> int \<Rightarrow> int \<Rightarrow> error + int \<times> int" where
  "f_ref d i j =
     (if \<not> (i \<ge> uIBegin d \<and> i < uIEnd d)
      then Inl (IndexOutOfRange ''i'' ''f'' i (uIBegin d) (uIEnd d))
      else if \<not> (j \<ge> uJBegin d \<and> j < uJEnd d)
      then Inl (IndexOutOfRange ''j'' ''f'' j (uJBegin d) (uJEnd d))
      else let x = i + 1; y = j + 1 in Inr (x, y))"

definition g_ref :: "StaggeredGrid \<Rightarrow> int \<Rightarrow> int \<Rightarrow> error + int \<times> int" where
  "g_ref d i j =
     (if \<not> (i \<ge> vIBegin d \<and> i < vIEnd d)
      then Inl (IndexOutOfRange ''i'' ''g'' i (vIBegin d) (vIEnd d))
      else if \<not> (j \<ge> vJBegin d \<and> j < vJEnd d)
      then Inl (IndexOutOfRange ''j'' ''g'' j (vJBegin d) (vJEnd d))
      else let x = i + 1; y = j + 1 in Inr (x, y))"

text \<open>Reading and writing through the reference an accessor returns.\<close>

definition put :: "FieldVariable \<Rightarrow> int \<times> int \<Rightarrow> double \<Rightarrow> FieldVariable" where
  "put fv xy val = fv\<lparr>m_data := (m_data fv)(xy := val)\<rparr>"

definition u_at :: "StaggeredGrid \<Rightarrow> int \<Rightarrow> int \<Rightarrow> error + double" where
  "u_at d i j = ebind (u_ref d i j) (\<lambda>xy. Inr (m_data (m_u d) xy))"

definition u_set :: "StaggeredGrid \<Rightarrow> int \<Rightarrow> int \<Rightarrow> double \<Rightarrow> error + StaggeredGrid" where
  "u_set d i j val = ebind (u_ref d i j) (\<lambda>xy. Inr (d\<lparr>m_u := put (m_u d) xy val\<rparr>))"

definition v_at :: "StaggeredGrid \<Rightarrow> int \<Rightarrow> int \<Rightarrow> error + double" where
  "v_at d i j = ebind (v_ref d i j) (\<lambda>xy. Inr (m_data (m_v d) xy))"

definition v_set :: "StaggeredGrid \<Rightarrow> int \<Rightarrow> int \<Rightarrow> double \<Rightarrow> error + StaggeredGrid" where
  "v_set d i j val = ebind (v_ref d i j) (\<lambda>xy. Inr (d\<lparr>m_v := put (m_v d) xy val\<rparr>))"

definition p_at :: "StaggeredGrid \<Rightarrow> int \<Rightarrow> int \<Rightarrow> error + double" where
  "p_at d i j = ebind (p_ref d i j) (\<lambda>xy. Inr (m_data (m_p d) xy))"

definition p_set :: "StaggeredGrid \<Rightarrow> int \<Rightarrow> int \<Rightarrow> double \<Rightarrow> error + StaggeredGrid" where
  "p_set d i j val = ebind (p_ref d i j) (\<lambda>xy. Inr (d\<lparr>m_p := put (m_p d) xy val\<rparr>))"

definition rhs_at :: "StaggeredGrid \<Rightarrow> int \<Rightarrow> int \<Rightarrow> error + double" where
  "rhs_at d i j = ebind (rhs_ref d i j) (\<lambda>xy. Inr (m_data (m_rhs d) xy))"

definition rhs_set :: "StaggeredGrid \<Rightarrow> int \<Rightarrow> int \<Rightarrow> double \<Rightarrow> error + StaggeredGrid" where
  "rhs_set d i j val = ebind (rhs_ref d i j) (\<lambda>xy. Inr (d\<lparr>m_rhs := put (m_rhs d) xy val\<rparr>))"

definition f_at :: "StaggeredGrid \<Rightarrow> int \<Rightarrow> int \<Rightarrow> error + double" where
  "f_at d i j = ebind (f_ref d i j) (\<lambda>xy. Inr (m_data (m_f d) xy))"

definition f_set :: "StaggeredGrid \<Rightarrow> int \<Rightarrow> int \<Rightarrow> double \<Rightarrow> error + StaggeredGrid" where
  "f_set d i j val = ebind (f_ref d i j) (\<lambda>xy. Inr (d\<lparr>m_f := put (m_f d) xy val\<rparr>))"

definition g_at :: "StaggeredGrid \<Rightarrow> int \<Rightarrow> int \<Rightarrow> error + double" where
  "g_at d i j = ebind (g_ref d i j) (\<lambda>xy. Inr (m_data (m_g d) xy))"

definition g_set :: "StaggeredGrid \<Rightarrow> int \<Rightarrow> int \<Rightarrow> double \<Rightarrow> error + StaggeredGrid" where
  "g_set d i j val = ebind (g_ref d i j) (\<lambda>xy. Inr (d\<lparr>m_g := put (m_g d) xy val\<rparr>))"


subsection \<open>Valid index pairs and the reported error\<close>

text \<open>The valid logical index pairs of the three staggerings.\<close>

definition inRangeU :: "StaggeredGrid \<Rightarrow> int \<Rightarrow> int \<Rightarrow> bool" where
  "inRangeU d i j = (uIBegin d \<le> i \<and> i < uIEnd d \<and> uJBegin d \<le> j \<and> j < uJEnd d)"

definition inRangeV :: "StaggeredGrid \<Rightarrow> int \<Rightarrow> int \<Rightarrow> bool" where
  "inRangeV d i j = (vIBegin d \<le> i \<and> i < vIEnd d \<and> vJBegin d \<le> j \<and> j < vJEnd d)"

definition inRangeP :: "StaggeredGrid \<Rightarrow> int \<Rightarrow> int \<Rightarrow> bool" where
  "inRangeP d i j = (pIBegin d \<le> i \<and> i < pIEnd d \<and> pJBegin d \<le> j \<and> j < pJEnd d)"

text \<open>
  \<open>reportsOutOfRange name i j irange jrange r\<close>: the result \<open>r\<close> is the fatal error, its line
  names the field \<open>name\<close>, and it carries either \<open>i\<close> with the valid \<open>i\<close>-range or \<open>j\<close> with
  the valid \<open>j\<close>-range, the index reported lying outside the range reported.
\<close>

definition reportsOutOfRange ::
  "string \<Rightarrow> int \<Rightarrow> int \<Rightarrow> int \<times> int \<Rightarrow> int \<times> int \<Rightarrow> error + 'a \<Rightarrow> bool" where
  "reportsOutOfRange name i j irange jrange r =
     (case r of
        Inr _ \<Rightarrow> False
      | Inl (UnknownPressureSolver _) \<Rightarrow> False
      | Inl (IndexOutOfRange ax nm idx lo hi) \<Rightarrow>
          nm = name \<and> ((idx = i \<and> (lo, hi) = irange) \<or> (idx = j \<and> (lo, hi) = jrange))
          \<and> \<not> (lo \<le> idx \<and> idx < hi))"

section \<open>The time-step orchestrator (computation.cpp)\<close>

text \<open>
  Modelled from the spec: the struct \<^verbatim>\<open>Settings\<close> is not among the sources. Its fields are
  the simulation parameters of the spec that \<^verbatim>\<open>computation.cpp\<close> reads, a
  \<^verbatim>\<open>std::array<_, 2>\<close> being a pair (\<^verbatim>\<open>a[0]\<close> is \<open>fst a\<close>, \<^verbatim>\<open>a[1]\<close> is \<open>snd a\<close>). The
  parameters that \<^verbatim>\<open>initialize\<close> only hands to the constructors of the discretization and
  of the pressure solver (\<^verbatim>\<open>useDonorCell\<close>, \<^verbatim>\<open>alpha\<close>, \<^verbatim>\<open>omega\<close>, \<^verbatim>\<open>epsilon\<close>,
  \<^verbatim>\<open>maximumNumberOfIterations\<close>) are left out.
\<close>

record Settings =
  nCells :: "int \<times> int"
  physicalSize :: "double \<times> double"
  re :: double
  endTime :: double
  tau :: double
  maximumDt :: double
  g :: "double \<times> double"
  dirichletBcBottom :: "double \<times> double"
  dirichletBcTop :: "double \<times> double"
  dirichletBcLeft :: "double \<times> double"
  dirichletBcRight :: "double \<times> double"
  pressureSolver :: string

text \<open>
  The state of a \<^verbatim>\<open>Computation\<close>. The object behind \<^verbatim>\<open>discretization_\<close> is the grid; its
  derivative operators and the pressure solver, whose classes are not among the sources,
  are parameters of the functions that call them.
\<close>

record Computation =
  m_settings :: Settings
  m_discretization :: StaggeredGrid
  m_meshWidth :: "double \<times> double"
  m_dt :: double

text \<open>
  \<^verbatim>\<open>initialize\<close>, the settings read from the file being the argument: the mesh widths are
  the physical size over the cell counts, the grid is built from both, and the solver
  name is checked.
\<close>

definition initialize :: "Settings \<Rightarrow> error + Computation" where
  "initialize s =
     (let meshWidth = (fst (physicalSize s) / Finite (of_int (fst (nCells s))),
                       snd (physicalSize s) / Finite (of_int (snd (nCells s))));
          c = \<lparr>m_settings = s, m_discretization = StaggeredGrid_new (nCells s) meshWidth,
               m_meshWidth = meshWidth, m_dt = Finite 0\<rparr>
      in if pressureSolver s = ''SOR'' then Inr c
         else if pressureSolver s = ''GaussSeidel'' then Inr c
         else Inl (UnknownPressureSolver (pressureSolver s)))"

text \<open>
  \<^verbatim>\<open>for (int i = lo; i < hi; i++) body\<close>, the body working on the state \<open>s\<close>. An error in
  the body ends the loop (and the run). The bounds of every loop of the program are range
  boundaries of the grid, which depend on the cell counts only; no statement of the
  program assigns the cell counts, so a bound is evaluated once, before the loop.
\<close>

function for_loop :: "int \<Rightarrow> int \<Rightarrow> (int \<Rightarrow> 's \<Rightarrow> error + 's) \<Rightarrow> 's \<Rightarrow> error + 's" where
  "for_loop i hi body s =
     (if i < hi
      then (case body i s of Inl e \<Rightarrow> Inl e | Inr s' \<Rightarrow> for_loop (i + 1) hi body s')
      else Inr s)"
  by pat_completeness auto
termination
  by (relation "measure (\<lambda>(i, hi, body, s). nat (hi - i))") auto

declare for_loop.simps [simp del]

subsection \<open>applyBoundaryValues\<close>

text \<open>
  The bodies of the eight loops, in the order of the source. In an assignment
  \<^verbatim>\<open>u(i, j) = e\<close> the value \<open>e\<close> is computed, with the index checks of the accessors it
  calls, and stored through the reference \<^verbatim>\<open>u(i, j)\<close>.
\<close>

definition setBottomTopU :: "Settings \<Rightarrow> int \<Rightarrow> StaggeredGrid \<Rightarrow> error + StaggeredGrid" where
  "setBottomTopU s i d =
     ebind (u_at d i (uJBegin d + 1)) (\<lambda>a.
     ebind (u_set d i (uJBegin d) (Finite 2 * fst (dirichletBcBottom s) - a)) (\<lambda>d.
     ebind (u_at d i (uJEnd d - 2)) (\<lambda>b.
     u_set d i (uJEnd d - 1) (Finite 2 * fst (dirichletBcTop s) - b))))"

definition setBottomTopV :: "Settings \<Rightarrow> int \<Rightarrow> StaggeredGrid \<Rightarrow> error + StaggeredGrid" where
  "setBottomTopV s i d =
     ebind (v_set d i (vJBegin d) (snd (dirichletBcBottom s))) (\<lambda>d.
     v_set d i (vJEnd d - 1) (snd (dirichletBcTop s)))"

definition setLeftRightU :: "Settings \<Rightarrow> int \<Rightarrow> StaggeredGrid \<Rightarrow> error + StaggeredGrid" where
  "setLeftRightU s j d =
     ebind (u_set d (uIBegin d) j (fst (dirichletBcLeft s))) (\<lambda>d.
     u_set d (uIEnd d - 1) j (fst (dirichletBcRight s)))"

definition setLeftRightV :: "Settings \<Rightarrow> int \<Rightarrow> StaggeredGrid \<Rightarrow> error + StaggeredGrid" where
  "setLeftRightV s j d =
     ebind (v_at d (vIBegin d + 1) j) (\<lambda>a.
     ebind (v_set d (vIBegin d) j (Finite 2 * snd (dirichletBcLeft s) - a)) (\<lambda>d.
     ebind (v_at d (vIEnd d - 2) j) (\<lambda>b.
     v_set d (vIEnd d - 1) j (Finite 2 * snd (dirichletBcRight s) - b))))"

definition setBottomTopF :: "int \<Rightarrow> StaggeredGrid \<Rightarrow> error + StaggeredGrid" where
  "setBottomTopF i d =
     ebind (u_at d i (uJBegin d)) (\<lambda>a.
     ebind (f_set d i (uJBegin d) a) (\<lambda>d.
     ebind (u_at d i (uJEnd d - 1)) (\<lambda>b.
     f_set d i (uJEnd d - 1) b)))"

definition setBottomTopG :: "int \<Rightarrow> StaggeredGrid \<Rightarrow> error + StaggeredGrid" where
  "setBottomTopG i d =
     ebind (v_at d i (vJBegin d)) (\<lambda>a.
     ebind (g_set d i (vJBegin d) a) (\<lambda>d.
     ebind (v_at d i (vJEnd d - 1)) (\<lambda>b.
     g_set d i (vJEnd d - 1) b)))"

definition setLeftRightF :: "int \<Rightarrow> StaggeredGrid \<Rightarrow> error + StaggeredGrid" where
  "setLeftRightF j d =
     ebind (u_at d (uIBegin d) j) (\<lambda>a.
     ebind (f_set d (uIBegin d) j a) (\<lambda>d.
     ebind (u_at d (uIEnd d - 1) j) (\<lambda>b.
     f_set d (uIEnd d - 1) j b)))"

definition setLeftRightG :: "int \<Rightarrow> StaggeredGrid \<Rightarrow> error + StaggeredGrid" where
  "setLeftRightG j d =
     ebind (v_at d (vIBegin d) j) (\<lambda>a.
     ebind (g_set d (vIBegin d) j a) (\<lambda>d.
     ebind (v_at d (vIEnd d - 1) j) (\<lambda>b.
     g_set d (vIEnd d - 1) j b)))"

text \<open>Bottom and top of \<open>u\<close>, then of \<open>v\<close>; the sides of \<open>u\<close>, then of \<open>v\<close>; the same for \<open>f\<close>, \<open>g\<close>.\<close>

definition applyBoundaryValues_grid :: "Settings \<Rightarrow> StaggeredGrid \<Rightarrow> error + StaggeredGrid" where
  "applyBoundaryValues_grid s d =
     ebind (for_loop (uIBegin d) (uIEnd d) (setBottomTopU s) d) (\<lambda>d.
     ebind (for_loop (vIBegin d) (vIEnd d) (setBottomTopV s) d) (\<lambda>d.
     ebind (for_loop (uJBegin d) (uJEnd d) (setLeftRightU s) d) (\<lambda>d.
     ebind (for_loop (vJBegin d) (vJEnd d) (setLeftRightV s) d) (\<lambda>d.
     ebind (for_loop (uIBegin d) (uIEnd d) setBottomTopF d) (\<lambda>d.
     ebind (for_loop (vIBegin d) (vIEnd d) setBottomTopG d) (\<lambda>d.
     ebind (for_loop (uJBegin d) (uJEnd d) setLeftRightF d) (\<lambda>d.
     for_loop (vJBegin d) (vJEnd d) setLeftRightG d)))))))"

definition applyBoundaryValues :: "Computation \<Rightarrow> error + Computation" where
  "applyBoundaryValues c =
     ebind (applyBoundaryValues_grid (m_settings c) (m_discretization c)) (\<lambda>d.
     Inr (c\<lparr>m_discretization := d\<rparr>))"

subsection \<open>What the loops of applyBoundaryValues compute\<close>

text \<open>
  These functions are used in the proofs only. Each gives the contents of a field after
  the first \<open>k\<close> rounds of one of the loops, from the contents \<open>D\<close> before the loop, in
  storage indices: \<open>ytop\<close> and \<open>xr\<close> are the storage row and column of the top and the
  right edge, \<open>S\<close> is the velocity field that a loop copies from.
\<close>

definition bottomTopMirror ::
  "int \<Rightarrow> double \<Rightarrow> double \<Rightarrow> int \<Rightarrow> (int \<times> int \<Rightarrow> double) \<Rightarrow> int \<times> int \<Rightarrow> double" where
  "bottomTopMirror ytop bB bT k D =
     (\<lambda>(x, y). if 0 \<le> x \<and> x < k \<and> y = ytop then Finite 2 * bT - D (x, ytop - 1)
               else if 0 \<le> x \<and> x < k \<and> y = 0 then Finite 2 * bB - D (x, 1)
               else D (x, y))"

definition bottomTopDirect ::
  "int \<Rightarrow> double \<Rightarrow> double \<Rightarrow> int \<Rightarrow> (int \<times> int \<Rightarrow> double) \<Rightarrow> int \<times> int \<Rightarrow> double" where
  "bottomTopDirect ytop bB bT k D =
     (\<lambda>(x, y). if 0 \<le> x \<and> x < k \<and> y = ytop then bT
               else if 0 \<le> x \<and> x < k \<and> y = 0 then bB
               else D (x, y))"

definition leftRightDirect ::
  "int \<Rightarrow> double \<Rightarrow> double \<Rightarrow> int \<Rightarrow> (int \<times> int \<Rightarrow> double) \<Rightarrow> int \<times> int \<Rightarrow> double" where
  "leftRightDirect xr bL bR k D =
     (\<lambda>(x, y). if 0 \<le> y \<and> y < k \<and> x = xr then bR
               else if 0 \<le> y \<and> y < k \<and> x = 0 then bL
               else D (x, y))"

definition leftRightMirror ::
  "int \<Rightarrow> double \<Rightarrow> double \<Rightarrow> int \<Rightarrow> (int \<times> int \<Rightarrow> double) \<Rightarrow> int \<times> int \<Rightarrow> double" where
  "leftRightMirror xr bL bR k D =
     (\<lambda>(x, y). if 0 \<le> y \<and> y < k \<and> x = xr then Finite 2 * bR - D (xr - 1, y)
               else if 0 \<le> y \<and> y < k \<and> x = 0 then Finite 2 * bL - D (1, y)
               else D (x, y))"

definition bottomTopCopy ::
  "int \<Rightarrow> int \<Rightarrow> (int \<times> int \<Rightarrow> double) \<Rightarrow> (int \<times> int \<Rightarrow> double) \<Rightarrow> int \<times> int \<Rightarrow> double" where
  "bottomTopCopy ytop k S D =
     (\<lambda>(x, y). if 0 \<le> x \<and> x < k \<and> (y = ytop \<or> y = 0) then S (x, y) else D (x, y))"

definition leftRightCopy ::
  "int \<Rightarrow> int \<Rightarrow> (int \<times> int \<Rightarrow> double) \<Rightarrow> (int \<times> int \<Rightarrow> double) \<Rightarrow> int \<times> int \<Rightarrow> double" where
  "leftRightCopy xr k S D =
     (\<lambda>(x, y). if 0 \<le> y \<and> y < k \<and> (x = xr \<or> x = 0) then S (x, y) else D (x, y))"

definition withU :: "StaggeredGrid \<Rightarrow> (int \<times> int \<Rightarrow> double) \<Rightarrow> StaggeredGrid" where
  "withU d D = d\<lparr>m_u := (m_u d)\<lparr>m_data := D\<rparr>\<rparr>"

definition withV :: "StaggeredGrid \<Rightarrow> (int \<times> int \<Rightarrow> double) \<Rightarrow> StaggeredGrid" where
  "withV d D = d\<lparr>m_v := (m_v d)\<lparr>m_data := D\<rparr>\<rparr>"

definition withF :: "StaggeredGrid \<Rightarrow> (int \<times> int \<Rightarrow> double) \<Rightarrow> StaggeredGrid" where
  "withF d D = d\<lparr>m_f := (m_f d)\<lparr>m_data := D\<rparr>\<rparr>"

definition withG :: "StaggeredGrid \<Rightarrow> (int \<times> int \<Rightarrow> double) \<Rightarrow> StaggeredGrid" where
  "withG d D = d\<lparr>m_g := (m_g d)\<lparr>m_data := D\<rparr>\<rparr>"

text \<open>The velocities after the four velocity loops, and the grid after all eight.\<close>

definition boundaryU :: "Settings \<Rightarrow> StaggeredGrid \<Rightarrow> int \<times> int \<Rightarrow> double" where
  "boundaryU s d =
     leftRightDirect (fst (m_nCells d)) (fst (dirichletBcLeft s)) (fst (dirichletBcRight s))
       (snd (m_nCells d) + 2)
       (bottomTopMirror (snd (m_nCells d) + 1) (fst (dirichletBcBottom s))
          (fst (dirichletBcTop s)) (fst (m_nCells d) + 1) (m_data (m_u d)))"

definition boundaryV :: "Settings \<Rightarrow> StaggeredGrid \<Rightarrow> int \<times> int \<Rightarrow> double" where
  "boundaryV s d =
     leftRightMirror (fst (m_nCells d) + 1) (snd (dirichletBcLeft s))
       (snd (dirichletBcRight s)) (snd (m_nCells d) + 1)
       (bottomTopDirect (snd (m_nCells d)) (snd (dirichletBcBottom s))
          (snd (dirichletBcTop s)) (fst (m_nCells d) + 2) (m_data (m_v d)))"

definition boundaryGrid :: "Settings \<Rightarrow> StaggeredGrid \<Rightarrow> StaggeredGrid" where
  "boundaryGrid s d =
     withG (withF (withV (withU d (boundaryU s d)) (boundaryV s d))
       (leftRightCopy (fst (m_nCells d)) (snd (m_nCells d) + 2) (boundaryU s d)
          (bottomTopCopy (snd (m_nCells d) + 1) (fst (m_nCells d) + 1) (boundaryU s d)
             (m_data (m_f d)))))
       (leftRightCopy (fst (m_nCells d) + 1) (snd (m_nCells d) + 1) (boundaryV s d)
          (bottomTopCopy (snd (m_nCells d)) (fst (m_nCells d) + 2) (boundaryV s d)
             (m_data (m_g d))))"

subsection \<open>Edges, corners and interior of the velocity ranges\<close>

text \<open>
  The edge cells of a range are those of its first and last row and column; the interior
  cells are the others, the cells that the loops over
  \<^verbatim>\<open>uIBegin() + 1 \<le> i < uIEnd() - 1\<close>, \<^verbatim>\<open>uJBegin() + 1 \<le> j < uJEnd() - 1\<close> visit.
\<close>

definition edgeU :: "StaggeredGrid \<Rightarrow> int \<Rightarrow> int \<Rightarrow> bool" where
  "edgeU d i j =
     (inRangeU d i j
      \<and> (i = uIBegin d \<or> i = uIEnd d - 1 \<or> j = uJBegin d \<or> j = uJEnd d - 1))"

definition edgeV :: "StaggeredGrid \<Rightarrow> int \<Rightarrow> int \<Rightarrow> bool" where
  "edgeV d i j =
     (inRangeV d i j
      \<and> (i = vIBegin d \<or> i = vIEnd d - 1 \<or> j = vJBegin d \<or> j = vJEnd d - 1))"

definition interiorU :: "StaggeredGrid \<Rightarrow> int \<Rightarrow> int \<Rightarrow> bool" where
  "interiorU d i j =
     (uIBegin d + 1 \<le> i \<and> i < uIEnd d - 1 \<and> uJBegin d + 1 \<le> j \<and> j < uJEnd d - 1)"

definition interiorV :: "StaggeredGrid \<Rightarrow> int \<Rightarrow> int \<Rightarrow> bool" where
  "interiorV d i j =
     (vIBegin d + 1 \<le> i \<and> i < vIEnd d - 1 \<and> vJBegin d + 1 \<le> j \<and> j < vJEnd d - 1)"

text \<open>
  The side rule at the four corners of \<open>u\<close> and of \<open>v\<close>. For \<open>u\<close> the side rule assigns the
  left or right Dirichlet value; for \<open>v\<close> it mirrors the neighbour in the row, which lies
  on the bottom or top edge and holds the bottom or top Dirichlet value.
\<close>

definition cornersHoldSideValues :: "Settings \<Rightarrow> StaggeredGrid \<Rightarrow> bool" where
  "cornersHoldSideValues s d =
     (u_at d (uIBegin d) (uJBegin d) = Inr (fst (dirichletBcLeft s))
      \<and> u_at d (uIBegin d) (uJEnd d - 1) = Inr (fst (dirichletBcLeft s))
      \<and> u_at d (uIEnd d - 1) (uJBegin d) = Inr (fst (dirichletBcRight s))
      \<and> u_at d (uIEnd d - 1) (uJEnd d - 1) = Inr (fst (dirichletBcRight s))
      \<and> v_at d (vIBegin d + 1) (vJBegin d) = Inr (snd (dirichletBcBottom s))
      \<and> v_at d (vIBegin d) (vJBegin d)
          = Inr (Finite 2 * snd (dirichletBcLeft s) - snd (dirichletBcBottom s))
      \<and> v_at d (vIBegin d + 1) (vJEnd d - 1) = Inr (snd (dirichletBcTop s))
      \<and> v_at d (vIBegin d) (vJEnd d - 1)
          = Inr (Finite 2 * snd (dirichletBcLeft s) - snd (dirichletBcTop s))
      \<and> v_at d (vIEnd d - 2) (vJBegin d) = Inr (snd (dirichletBcBottom s))
      \<and> v_at d (vIEnd d - 1) (vJBegin d)
          = Inr (Finite 2 * snd (dirichletBcRight s) - snd (dirichletBcBottom s))
      \<and> v_at d (vIEnd d - 2) (vJEnd d - 1) = Inr (snd (dirichletBcTop s))
      \<and> v_at d (vIEnd d - 1) (vJEnd d - 1)
          = Inr (Finite 2 * snd (dirichletBcRight s) - snd (dirichletBcTop s)))"

text \<open>
  The bottom/top rule at the four corners of \<open>u\<close> and of \<open>v\<close>, read on a grid \<open>d\<close>: for \<open>u\<close>
  the corner mirrors its neighbour in the column, for \<open>v\<close> it holds the bottom or top
  Dirichlet value. \<open>someCornerHoldsBottomTopValue\<close>: at least one of the eight corners
  satisfies it.
\<close>

definition someCornerHoldsBottomTopValue :: "Settings \<Rightarrow> StaggeredGrid \<Rightarrow> bool" where
  "someCornerHoldsBottomTopValue s d =
     (u_at d (uIBegin d) (uJBegin d)
        = ebind (u_at d (uIBegin d) (uJBegin d + 1))
            (\<lambda>a. Inr (Finite 2 * fst (dirichletBcBottom s) - a))
      \<or> u_at d (uIEnd d - 1) (uJBegin d)
        = ebind (u_at d (uIEnd d - 1) (uJBegin d + 1))
            (\<lambda>a. Inr (Finite 2 * fst (dirichletBcBottom s) - a))
      \<or> u_at d (uIBegin d) (uJEnd d - 1)
        = ebind (u_at d (uIBegin d) (uJEnd d - 2))
            (\<lambda>a. Inr (Finite 2 * fst (dirichletBcTop s) - a))
      \<or> u_at d (uIEnd d - 1) (uJEnd d - 1)
        = ebind (u_at d (uIEnd d - 1) (uJEnd d - 2))
            (\<lambda>a. Inr (Finite 2 * fst (dirichletBcTop s) - a))
      \<or> v_at d (vIBegin d) (vJBegin d) = Inr (snd (dirichletBcBottom s))
      \<or> v_at d (vIEnd d - 1) (vJBegin d) = Inr (snd (dirichletBcBottom s))
      \<or> v_at d (vIBegin d) (vJEnd d - 1) = Inr (snd (dirichletBcTop s))
      \<or> v_at d (vIEnd d - 1) (vJEnd d - 1) = Inr (snd (dirichletBcTop s)))"

text \<open>
  The Dirichlet values are numbers, and each left and right value differs from the bottom
  and the top value of the same velocity component.
\<close>

definition distinctDirichletValues :: "Settings \<Rightarrow> bool" where
  "distinctDirichletValues s =
     (isFinite (fst (dirichletBcBottom s)) \<and> isFinite (snd (dirichletBcBottom s))
      \<and> isFinite (fst (dirichletBcTop s)) \<and> isFinite (snd (dirichletBcTop s))
      \<and> isFinite (fst (dirichletBcLeft s)) \<and> isFinite (snd (dirichletBcLeft s))
      \<and> isFinite (fst (dirichletBcRight s)) \<and> isFinite (snd (dirichletBcRight s))
      \<and> fst (dirichletBcLeft s) \<noteq> fst (dirichletBcBottom s)
      \<and> fst (dirichletBcLeft s) \<noteq> fst (dirichletBcTop s)
      \<and> fst (dirichletBcRight s) \<noteq> fst (dirichletBcBottom s)
      \<and> fst (dirichletBcRight s) \<noteq> fst (dirichletBcTop s)
      \<and> snd (dirichletBcLeft s) \<noteq> snd (dirichletBcBottom s)
      \<and> snd (dirichletBcLeft s) \<noteq> snd (dirichletBcTop s)
      \<and> snd (dirichletBcRight s) \<noteq> snd (dirichletBcBottom s)
      \<and> snd (dirichletBcRight s) \<noteq> snd (dirichletBcTop s))"

text \<open>
  The values that applyBoundaryValues leaves in the edge cells of \<open>u\<close> and \<open>v\<close>, from the
  Dirichlet values \<open>s\<close> and the grid \<open>d\<close> before the call. For \<open>u\<close>: the left or right value
  on the sides (which are written last), and elsewhere on the bottom and the top the
  mirror of the neighbour in the column at the bottom or top value. For \<open>v\<close>: the bottom
  or top value on the bottom and the top (\<open>rowValueV\<close>, which is the cell itself on the
  other rows), but on the sides the mirror of the neighbour in the row at the left or
  right value.
\<close>

definition boundaryValueU :: "Settings \<Rightarrow> StaggeredGrid \<Rightarrow> int \<Rightarrow> int \<Rightarrow> error + double" where
  "boundaryValueU s d i j =
     (if i = uIBegin d then Inr (fst (dirichletBcLeft s))
      else if i = uIEnd d - 1 then Inr (fst (dirichletBcRight s))
      else if j = uJBegin d
      then ebind (u_at d i (uJBegin d + 1))
             (\<lambda>a. Inr (Finite 2 * fst (dirichletBcBottom s) - a))
      else ebind (u_at d i (uJEnd d - 2))
             (\<lambda>b. Inr (Finite 2 * fst (dirichletBcTop s) - b)))"

definition rowValueV :: "Settings \<Rightarrow> StaggeredGrid \<Rightarrow> int \<Rightarrow> int \<Rightarrow> error + double" where
  "rowValueV s d i j =
     (if j = vJBegin d then Inr (snd (dirichletBcBottom s))
      else if j = vJEnd d - 1 then Inr (snd (dirichletBcTop s))
      else v_at d i j)"

definition boundaryValueV :: "Settings \<Rightarrow> StaggeredGrid \<Rightarrow> int \<Rightarrow> int \<Rightarrow> error + double" where
  "boundaryValueV s d i j =
     (if i = vIBegin d
      then ebind (rowValueV s d (vIBegin d + 1) j)
             (\<lambda>a. Inr (Finite 2 * snd (dirichletBcLeft s) - a))
      else if i = vIEnd d - 1
      then ebind (rowValueV s d (vIEnd d - 2) j)
             (\<lambda>b. Inr (Finite 2 * snd (dirichletBcRight s) - b))
      else rowValueV s d i j)"

subsection \<open>An example run\<close>

text \<open>
  A cavity of 2 x 2 cells of width 1 with eight different Dirichlet values, in the state
  in which \<^verbatim>\<open>initialize\<close> leaves it.
\<close>

definition exampleSettings :: Settings where
  "exampleSettings =
     \<lparr>nCells = (2, 2), physicalSize = (Finite 2, Finite 2), re = Finite 1000,
      endTime = Finite 10, tau = Finite (1 / 2), maximumDt = Finite (1 / 10),
      g = (Finite 0, Finite 0),
      dirichletBcBottom = (Finite 1, Finite 2), dirichletBcTop = (Finite 3, Finite 4),
      dirichletBcLeft = (Finite 5, Finite 6), dirichletBcRight = (Finite 7, Finite 8),
      pressureSolver = ''SOR''\<rparr>"

definition exampleComputation :: Computation where
  "exampleComputation =
     \<lparr>m_settings = exampleSettings,
      m_discretization = StaggeredGrid_new (2, 2) (Finite 1, Finite 1),
      m_meshWidth = (Finite 1, Finite 1),
      m_dt = Finite 0\<rparr>"

text \<open>The example after applyBoundaryValues (theorem \<open>exampleBoundary_applied\<close>).\<close>

definition exampleBoundary :: Computation where
  "exampleBoundary =
     exampleComputation
       \<lparr>m_discretization := boundaryGrid exampleSettings (m_discretization exampleComputation)\<rparr>"

text \<open>
  The lid-driven cavity: 2 x 2 cells of width 1, the lid moving with velocity 1 along the
  top, the other Dirichlet values 0; as \<^verbatim>\<open>initialize\<close> leaves it, and after
  applyBoundaryValues (theorem \<open>cavityBoundary_applied\<close>).
\<close>

definition cavitySettings :: Settings where
  "cavitySettings =
     \<lparr>nCells = (2, 2), physicalSize = (Finite 2, Finite 2), re = Finite 1000,
      endTime = Finite 10, tau = Finite (1 / 2), maximumDt = Finite (1 / 10),
      g = (Finite 0, Finite 0),
      dirichletBcBottom = (Finite 0, Finite 0), dirichletBcTop = (Finite 1, Finite 0),
      dirichletBcLeft = (Finite 0, Finite 0), dirichletBcRight = (Finite 0, Finite 0),
      pressureSolver = ''SOR''\<rparr>"

definition cavityComputation :: Computation where
  "cavityComputation =
     \<lparr>m_settings = cavitySettings,
      m_discretization = StaggeredGrid_new (2, 2) (Finite 1, Finite 1),
      m_meshWidth = (Finite 1, Finite 1),
      m_dt = Finite 0\<rparr>"

definition cavityBoundary :: Computation where
  "cavityBoundary =
     cavityComputation
       \<lparr>m_discretization := boundaryGrid cavitySettings (m_discretization cavityComputation)\<rparr>"

text \<open>
  The fluid at rest: 2 x 2 cells of width 1, every Dirichlet value 0, the end time 0.21
  (the double \<open>7566047373982433 / 2^55\<close>) and the maximal step width 1; as \<^verbatim>\<open>initialize\<close>
  leaves it.
\<close>

definition restSettings :: Settings where
  "restSettings =
     \<lparr>nCells = (2, 2), physicalSize = (Finite 2, Finite 2), re = Finite 1000,
      endTime = Finite (7566047373982433 / 2 ^ 55), tau = Finite (1 / 2),
      maximumDt = Finite 1, g = (Finite 0, Finite 0),
      dirichletBcBottom = (Finite 0, Finite 0), dirichletBcTop = (Finite 0, Finite 0),
      dirichletBcLeft = (Finite 0, Finite 0), dirichletBcRight = (Finite 0, Finite 0),
      pressureSolver = ''SOR''\<rparr>"

definition restComputation :: Computation where
  "restComputation =
     \<lparr>m_settings = restSettings,
      m_discretization = StaggeredGrid_new (2, 2) (Finite 1, Finite 1),
      m_meshWidth = (Finite 1, Finite 1),
      m_dt = Finite 0\<rparr>"

subsection \<open>Rounding of the time\<close>

text \<open>
  Whether the loop of \<^verbatim>\<open>runSimulation\<close> lands on the end time is a question of the last
  bit, so the three operations of the loop on \<^verbatim>\<open>currentTime\<close> are modelled with the
  rounding of IEEE 754 binary64 (round to nearest, ties to even): the result of an
  addition or subtraction of two numbers is the exact result rounded.

  \<open>pow2 k\<close> is the power \<open>2^k\<close>. A number \<open>x\<close> with \<open>2^k \<le> \<bar>x\<bar> < 2^(k + 1)\<close> has the
  exponent \<open>k\<close>, and the doubles around it are the multiples of \<open>2^(k - 52)\<close> (53
  significant bits); below the smallest normal number \<open>2^(- 1022)\<close> they are the multiples
  of \<open>2^(- 1074)\<close>. \<open>rne q\<close> is the integer nearest to \<open>q\<close>, the even one of the two when
  \<open>q\<close> lies halfway. A result that rounds to \<open>2^1024\<close> or beyond is infinite.
\<close>

definition pow2 :: "int \<Rightarrow> real" where
  "pow2 k = (if 0 \<le> k then 2 ^ nat k else 1 / 2 ^ nat (- k))"

definition expo64 :: "real \<Rightarrow> int" where
  "expo64 x = \<lfloor>log 2 \<bar>x\<bar>\<rfloor>"

definition ulp64 :: "real \<Rightarrow> real" where
  "ulp64 x = (if \<bar>x\<bar> < pow2 (- 1022) then pow2 (- 1074) else pow2 (expo64 x - 52))"

definition rne :: "real \<Rightarrow> int" where
  "rne q =
     (if q - of_int \<lfloor>q\<rfloor> < 1 / 2 then \<lfloor>q\<rfloor>
      else if 1 / 2 < q - of_int \<lfloor>q\<rfloor> then \<lfloor>q\<rfloor> + 1
      else if even \<lfloor>q\<rfloor> then \<lfloor>q\<rfloor> else \<lfloor>q\<rfloor> + 1)"

definition round64 :: "real \<Rightarrow> double" where
  "round64 x =
     (if pow2 1024 \<le> \<bar>of_int (rne (x / ulp64 x)) * ulp64 x\<bar>
      then (if 0 < x then PInf else NInf)
      else Finite (of_int (rne (x / ulp64 x)) * ulp64 x))"

text \<open>
  \<^verbatim>\<open>a + b\<close> and \<^verbatim>\<open>a - b\<close> in binary64; with an infinity or a NaN among the operands the
  result is that of the table of the exceptional values.
\<close>

fun add64 :: "double \<Rightarrow> double \<Rightarrow> double" where
  "add64 (Finite x) (Finite y) = round64 (x + y)"
| "add64 a b = a + b"

fun sub64 :: "double \<Rightarrow> double \<Rightarrow> double" where
  "sub64 (Finite x) (Finite y) = round64 (x - y)"
| "sub64 a b = a - b"

declare add64.simps [simp del] sub64.simps [simp del]

subsection \<open>computeTimeStepWidth\<close>

text \<open>
  The local variables of the function are functions of their own, so that the theorems
  can name them: \<open>boundary_diffusion\<close>, the two scans \<open>u_max\<close> and \<open>v_max\<close>, and the two
  convection bounds. \<^verbatim>\<open>value > u_max\<close> is \<open>u_max < value\<close>.
\<close>

definition boundary_diffusion :: "Computation \<Rightarrow> double" where
  "boundary_diffusion c =
     (if deq (fst (m_meshWidth c)) (snd (m_meshWidth c))
      then (re (m_settings c) * fst (m_meshWidth c) * snd (m_meshWidth c)) / Finite 4
      else let h2x = fst (m_meshWidth c) * fst (m_meshWidth c);
               h2y = snd (m_meshWidth c) * snd (m_meshWidth c)
           in (re (m_settings c) / Finite 2) * (h2x * h2y) * (Finite 1 / (h2x + h2y)))"

definition u_max :: "StaggeredGrid \<Rightarrow> error + double" where
  "u_max d =
     for_loop (uJBegin d) (uJEnd d) (\<lambda>j m.
       for_loop (uIBegin d) (uIEnd d) (\<lambda>i m.
         ebind (u_at d i j) (\<lambda>x.
           let value = \<bar>x\<bar> in Inr (if m < value then value else m))) m) (Finite 0)"

definition v_max :: "StaggeredGrid \<Rightarrow> error + double" where
  "v_max d =
     for_loop (vJBegin d) (vJEnd d) (\<lambda>j m.
       for_loop (vIBegin d) (vIEnd d) (\<lambda>i m.
         ebind (v_at d i j) (\<lambda>x.
           let value = \<bar>x\<bar> in Inr (if m < value then value else m))) m) (Finite 0)"

definition boundary_convection_u :: "Computation \<Rightarrow> double \<Rightarrow> double" where
  "boundary_convection_u c um = fst (m_meshWidth c) / um"

definition boundary_convection_v :: "Computation \<Rightarrow> double \<Rightarrow> double" where
  "boundary_convection_v c vm = snd (m_meshWidth c) / vm"

definition computeTimeStepWidth :: "Computation \<Rightarrow> error + Computation" where
  "computeTimeStepWidth c =
     ebind (u_max (m_discretization c)) (\<lambda>um.
     ebind (v_max (m_discretization c)) (\<lambda>vm.
       let min_dt = std_min3 (boundary_diffusion c) (boundary_convection_u c um)
                      (boundary_convection_v c vm)
       in Inr (c\<lparr>m_dt := std_min (min_dt * tau (m_settings c)) (maximumDt (m_settings c))\<rparr>)))"

subsection \<open>The derivative operators and the pressure solver\<close>

text \<open>
  Modelled from the spec: the classes \<^verbatim>\<open>Discretization\<close>, \<^verbatim>\<open>CentralDifferences\<close> and
  \<^verbatim>\<open>DonorCell\<close> are not among the sources. The spec says of their derivative operators
  that each evaluation has no side effects and only reads the grid storage; the variant
  selected at construction is the record of its ten operators, a parameter of the
  functions that call them.
\<close>

record Discretization =
  computeD2uDx2 :: "StaggeredGrid \<Rightarrow> int \<Rightarrow> int \<Rightarrow> double"
  computeD2uDy2 :: "StaggeredGrid \<Rightarrow> int \<Rightarrow> int \<Rightarrow> double"
  computeDu2Dx :: "StaggeredGrid \<Rightarrow> int \<Rightarrow> int \<Rightarrow> double"
  computeDuvDy :: "StaggeredGrid \<Rightarrow> int \<Rightarrow> int \<Rightarrow> double"
  computeD2vDx2 :: "StaggeredGrid \<Rightarrow> int \<Rightarrow> int \<Rightarrow> double"
  computeD2vDy2 :: "StaggeredGrid \<Rightarrow> int \<Rightarrow> int \<Rightarrow> double"
  computeDuvDx :: "StaggeredGrid \<Rightarrow> int \<Rightarrow> int \<Rightarrow> double"
  computeDv2Dy :: "StaggeredGrid \<Rightarrow> int \<Rightarrow> int \<Rightarrow> double"
  computeDpDx :: "StaggeredGrid \<Rightarrow> int \<Rightarrow> int \<Rightarrow> double"
  computeDpDy :: "StaggeredGrid \<Rightarrow> int \<Rightarrow> int \<Rightarrow> double"

text \<open>
  Modelled from the spec: the classes \<^verbatim>\<open>PressureSolver\<close>, \<^verbatim>\<open>SOR\<close> and \<^verbatim>\<open>GaussSeidel\<close> are
  not among the sources. The spec says that \<^verbatim>\<open>solve()\<close> mutates the pressure field in
  place, within its iteration budget; the solver is the function from the grid to the new
  contents of the pressure field, a parameter of the functions that call it.
\<close>

type_synonym PressureSolver = "StaggeredGrid \<Rightarrow> int \<times> int \<Rightarrow> double"

subsection \<open>computePreliminaryVelocities\<close>

definition computeF :: "Discretization \<Rightarrow> Settings \<Rightarrow> double \<Rightarrow> int \<Rightarrow> int \<Rightarrow> StaggeredGrid
    \<Rightarrow> error + StaggeredGrid" where
  "computeF ops s dt j i d =
     (let diffusion = computeD2uDx2 ops d i j + computeD2uDy2 ops d i j;
          convection = - computeDu2Dx ops d i j - computeDuvDy ops d i j;
          sum = ((Finite 1 / re s) * diffusion) + convection + fst (g s)
      in ebind (u_at d i j) (\<lambda>a. f_set d i j (a + dt * sum)))"

definition computeG :: "Discretization \<Rightarrow> Settings \<Rightarrow> double \<Rightarrow> int \<Rightarrow> int \<Rightarrow> StaggeredGrid
    \<Rightarrow> error + StaggeredGrid" where
  "computeG ops s dt j i d =
     (let diffusion = computeD2vDx2 ops d i j + computeD2vDy2 ops d i j;
          convection = - computeDuvDx ops d i j - computeDv2Dy ops d i j;
          sum = ((Finite 1 / re s) * diffusion) + convection + snd (g s)
      in ebind (v_at d i j) (\<lambda>a. g_set d i j (a + dt * sum)))"

definition computePreliminaryVelocities ::
  "Discretization \<Rightarrow> Computation \<Rightarrow> error + Computation" where
  "computePreliminaryVelocities ops c =
     ebind (for_loop (uJBegin (m_discretization c) + 1) (uJEnd (m_discretization c) - 1)
        (\<lambda>j d. for_loop (uIBegin d + 1) (uIEnd d - 1)
           (computeF ops (m_settings c) (m_dt c) j) d)
        (m_discretization c)) (\<lambda>d.
     ebind (for_loop (vJBegin d + 1) (vJEnd d - 1)
        (\<lambda>j d. for_loop (vIBegin d + 1) (vIEnd d - 1)
           (computeG ops (m_settings c) (m_dt c) j) d) d) (\<lambda>d.
     Inr (c\<lparr>m_discretization := d\<rparr>)))"

subsection \<open>computeRightHandSide, computePressure, computeVelocities\<close>

definition computeRhs :: "double \<Rightarrow> int \<Rightarrow> int \<Rightarrow> StaggeredGrid \<Rightarrow> error + StaggeredGrid" where
  "computeRhs dt j i d =
     ebind (f_at d i j) (\<lambda>f1. ebind (f_at d (i - 1) j) (\<lambda>f0.
     let difference_f = (f1 - f0) / dx d in
     ebind (g_at d i j) (\<lambda>g1. ebind (g_at d i (j - 1)) (\<lambda>g0.
     let difference_g = (g1 - g0) / dy d in
     rhs_set d i j ((Finite 1 / dt) * (difference_f + difference_g))))))"

definition computeRightHandSide :: "Computation \<Rightarrow> error + Computation" where
  "computeRightHandSide c =
     ebind (for_loop (pJBegin (m_discretization c) + 1) (pJEnd (m_discretization c) - 1)
        (\<lambda>j d. for_loop (pIBegin d + 1) (pIEnd d - 1) (computeRhs (m_dt c) j) d)
        (m_discretization c)) (\<lambda>d.
     Inr (c\<lparr>m_discretization := d\<rparr>))"

definition computePressure :: "PressureSolver \<Rightarrow> Computation \<Rightarrow> Computation" where
  "computePressure solve c =
     c\<lparr>m_discretization := (m_discretization c)
          \<lparr>m_p := (m_p (m_discretization c))\<lparr>m_data := solve (m_discretization c)\<rparr>\<rparr>\<rparr>"

definition computeU :: "Discretization \<Rightarrow> double \<Rightarrow> int \<Rightarrow> int \<Rightarrow> StaggeredGrid
    \<Rightarrow> error + StaggeredGrid" where
  "computeU ops dt j i d =
     ebind (f_at d i j) (\<lambda>a. u_set d i j (a - dt * computeDpDx ops d i j))"

definition computeV :: "Discretization \<Rightarrow> double \<Rightarrow> int \<Rightarrow> int \<Rightarrow> StaggeredGrid
    \<Rightarrow> error + StaggeredGrid" where
  "computeV ops dt j i d =
     ebind (g_at d i j) (\<lambda>a. v_set d i j (a - dt * computeDpDy ops d i j))"

definition computeVelocities :: "Discretization \<Rightarrow> Computation \<Rightarrow> error + Computation" where
  "computeVelocities ops c =
     ebind (for_loop (uJBegin (m_discretization c) + 1) (uJEnd (m_discretization c) - 1)
        (\<lambda>j d. for_loop (uIBegin d + 1) (uIEnd d - 1) (computeU ops (m_dt c) j) d)
        (m_discretization c)) (\<lambda>d.
     ebind (for_loop (vJBegin d + 1) (vJEnd d - 1)
        (\<lambda>j d. for_loop (vIBegin d + 1) (vIEnd d - 1) (computeV ops (m_dt c) j) d) d) (\<lambda>d.
     Inr (c\<lparr>m_discretization := d\<rparr>)))"

subsection \<open>runSimulation\<close>

text \<open>
  One round of the \<^verbatim>\<open>while\<close> loop, on the computation and the local \<^verbatim>\<open>currentTime\<close>. The
  two output writers, whose classes are not among the sources, read the grid and leave the
  computation as it is (spec: the output sink serializes a snapshot without mutating any
  field); the console output is left out too. \<^verbatim>\<open>currentTime + dt_\<close>,
  \<^verbatim>\<open>settings_.endTime - currentTime\<close> and \<^verbatim>\<open>currentTime += dt_\<close> are the rounded operations
  \<open>add64\<close> and \<open>sub64\<close>.
\<close>

definition runSimulation_step ::
  "Discretization \<Rightarrow> PressureSolver \<Rightarrow> Computation \<times> double \<Rightarrow> error + Computation \<times> double" where
  "runSimulation_step ops solve st =
     (case st of (c, currentTime) \<Rightarrow>
        ebind (applyBoundaryValues c) (\<lambda>c.
        ebind (computeTimeStepWidth c) (\<lambda>c.
        let c = (if endTime (m_settings c) < add64 currentTime (m_dt c)
                 then c\<lparr>m_dt := sub64 (endTime (m_settings c)) currentTime\<rparr> else c);
            currentTime = add64 currentTime (m_dt c)
        in ebind (computePreliminaryVelocities ops c) (\<lambda>c.
           ebind (computeRightHandSide c) (\<lambda>c.
           ebind (computeVelocities ops (computePressure solve c)) (\<lambda>c.
           Inr (c, currentTime)))))))"

text \<open>
  \<^verbatim>\<open>while (currentTime < settings_.endTime)\<close>. The loop need not end (a step width of 0
  never reaches the end time), so the result is optional: \<open>None\<close> is a run without end,
  \<open>Some (Inl e)\<close> a run that the error \<open>e\<close> ended, \<open>Some (Inr (c, t))\<close> a run that left
  the loop with the computation \<open>c\<close> at the time \<open>t\<close>.
\<close>

partial_function (option) runSimulation_loop ::
  "Discretization \<Rightarrow> PressureSolver \<Rightarrow> Computation \<times> double
    \<Rightarrow> (error + Computation \<times> double) option" where
  "runSimulation_loop ops solve st =
     (if snd st < endTime (m_settings (fst st))
      then (case runSimulation_step ops solve st of
              Inl e \<Rightarrow> Some (Inl e)
            | Inr st' \<Rightarrow> runSimulation_loop ops solve st')
      else Some (Inr st))"

definition runSimulation ::
  "Discretization \<Rightarrow> PressureSolver \<Rightarrow> Computation
    \<Rightarrow> (error + Computation \<times> double) option" where
  "runSimulation ops solve c = runSimulation_loop ops solve (c, Finite 0)"

subsection \<open>The maximum of a scan\<close>

text \<open>
  \<open>scanned val S m\<close>: \<open>m\<close> is the maximum of 0 and of the absolute values \<open>\<bar>val p\<bar>\<close> over the
  cells \<open>p\<close> of \<open>S\<close>, in the order of the doubles: no absolute value compares greater, and
  \<open>m\<close> is 0 or a positive one of them. (A NaN compares with nothing and is passed over by
  the scan.)
\<close>

definition scanned :: "(int \<times> int \<Rightarrow> double) \<Rightarrow> (int \<times> int) set \<Rightarrow> double \<Rightarrow> bool" where
  "scanned val S m =
     ((\<forall>p\<in>S. \<not> m < \<bar>val p\<bar>)
      \<and> (m = Finite 0 \<or> (Finite 0 < m \<and> (\<exists>p\<in>S. m = \<bar>val p\<bar>))))"

text \<open>The maximum absolute value of \<open>u\<close>, and of \<open>v\<close>, over the whole logical range.\<close>

definition maxAbsU :: "StaggeredGrid \<Rightarrow> double \<Rightarrow> bool" where
  "maxAbsU d m =
     scanned (\<lambda>(i, j). m_data (m_u d) (i + 1, j + 1))
       ({uIBegin d..<uIEnd d} \<times> {uJBegin d..<uJEnd d}) m"

definition maxAbsV :: "StaggeredGrid \<Rightarrow> double \<Rightarrow> bool" where
  "maxAbsV d m =
     scanned (\<lambda>(i, j). m_data (m_v d) (i + 1, j + 1))
       ({vIBegin d..<vIEnd d} \<times> {vJBegin d..<vJEnd d}) m"

subsection \<open>Operators that read the velocities\<close>

text \<open>
  The eight derivative operators of \<open>u\<close> and \<open>v\<close> read the two velocity fields, the cell
  counts and the mesh widths, and nothing else of the grid: on two grids that agree on
  these they return the same.
\<close>

definition readsVelocitiesOnly :: "(StaggeredGrid \<Rightarrow> int \<Rightarrow> int \<Rightarrow> double) \<Rightarrow> bool" where
  "readsVelocitiesOnly op =
     (\<forall>d d'. m_u d' = m_u d \<and> m_v d' = m_v d \<and> m_nCells d' = m_nCells d
        \<and> StaggeredGrid.m_meshWidth d' = StaggeredGrid.m_meshWidth d \<longrightarrow> op d' = op d)"

definition velocityOperators :: "Discretization \<Rightarrow> bool" where
  "velocityOperators ops =
     (readsVelocitiesOnly (computeD2uDx2 ops) \<and> readsVelocitiesOnly (computeD2uDy2 ops)
      \<and> readsVelocitiesOnly (computeDu2Dx ops) \<and> readsVelocitiesOnly (computeDuvDy ops)
      \<and> readsVelocitiesOnly (computeD2vDx2 ops) \<and> readsVelocitiesOnly (computeD2vDy2 ops)
      \<and> readsVelocitiesOnly (computeDuvDx ops) \<and> readsVelocitiesOnly (computeDv2Dy ops))"

text \<open>
  The contents of a field during a sweep over the interior cells \<open>0 \<le> i < ihi\<close>, row by
  row, when the rows below \<open>j\<close> and the cells of row \<open>j\<close> left of \<open>i\<close> have been assigned
  \<open>val i j\<close>: used in the proofs only.
\<close>

definition interiorSweep ::
  "int \<Rightarrow> int \<Rightarrow> int \<Rightarrow> (int \<Rightarrow> int \<Rightarrow> double) \<Rightarrow> (int \<times> int \<Rightarrow> double) \<Rightarrow> int \<times> int \<Rightarrow> double" where
  "interiorSweep ihi j i val D =
     (\<lambda>(x, y). if 1 \<le> x \<and> x \<le> ihi \<and> 1 \<le> y \<and> (y \<le> j \<or> (y = j + 1 \<and> x \<le> i))
               then val (x - 1) (y - 1) else D (x, y))"

text \<open>The right-hand sides of the two assignments of computePreliminaryVelocities.\<close>

definition predictedF :: "Discretization \<Rightarrow> Computation \<Rightarrow> int \<Rightarrow> int \<Rightarrow> double" where
  "predictedF ops c i j =
     m_data (m_u (m_discretization c)) (i + 1, j + 1)
     + m_dt c * (((Finite 1 / re (m_settings c))
          * (computeD2uDx2 ops (m_discretization c) i j
             + computeD2uDy2 ops (m_discretization c) i j))
        + (- computeDu2Dx ops (m_discretization c) i j
           - computeDuvDy ops (m_discretization c) i j)
        + fst (g (m_settings c)))"

definition predictedG :: "Discretization \<Rightarrow> Computation \<Rightarrow> int \<Rightarrow> int \<Rightarrow> double" where
  "predictedG ops c i j =
     m_data (m_v (m_discretization c)) (i + 1, j + 1)
     + m_dt c * (((Finite 1 / re (m_settings c))
          * (computeD2vDx2 ops (m_discretization c) i j
             + computeD2vDy2 ops (m_discretization c) i j))
        + (- computeDuvDx ops (m_discretization c) i j
           - computeDv2Dy ops (m_discretization c) i j)
        + snd (g (m_settings c)))"

text \<open>
  Stand-ins for the operators of an example: each reads one velocity value next to the
  cell; the pressure derivatives read the pressure.
\<close>

definition exampleOps :: Discretization where
  "exampleOps =
     \<lparr>computeD2uDx2 = (\<lambda>d i j. m_data (m_u d) (i + 2, j + 1)),
      computeD2uDy2 = (\<lambda>d i j. m_data (m_u d) (i + 1, j + 2)),
      computeDu2Dx = (\<lambda>d i j. m_data (m_u d) (i + 1, j + 1) * m_data (m_u d) (i + 1, j + 1)),
      computeDuvDy = (\<lambda>d i j. m_data (m_u d) (i + 1, j + 1) * m_data (m_v d) (i + 1, j + 1)),
      computeD2vDx2 = (\<lambda>d i j. m_data (m_v d) (i + 2, j + 1)),
      computeD2vDy2 = (\<lambda>d i j. m_data (m_v d) (i + 1, j + 2)),
      computeDuvDx = (\<lambda>d i j. m_data (m_u d) (i + 1, j + 1) * m_data (m_v d) (i + 1, j + 1)),
      computeDv2Dy = (\<lambda>d i j. m_data (m_v d) (i + 1, j + 1) * m_data (m_v d) (i + 1, j + 1)),
      computeDpDx = (\<lambda>d i j. m_data (m_p d) (i + 2, j + 1) - m_data (m_p d) (i + 1, j + 1)),
      computeDpDy = (\<lambda>d i j. m_data (m_p d) (i + 1, j + 2) - m_data (m_p d) (i + 1, j + 1))\<rparr>"


section \<open>Properties of the grid\<close>

lemmas range_defs =
  uIBegin_def uIEnd_def uJBegin_def uJEnd_def vIBegin_def vIEnd_def vJBegin_def vJEnd_def
  pIBegin_def pIEnd_def pJBegin_def pJEnd_def

lemmas inRange_defs = inRangeU_def inRangeV_def inRangeP_def

lemmas ref_defs = u_ref_def v_ref_def p_ref_def rhs_ref_def f_ref_def g_ref_def

lemmas const_defs = u_const_def v_const_def p_const_def

text \<open>
  C1, as the spec states it: every range ends at cell-count + 1 or cell-count + 2. The
  \<open>i\<close>-range of \<open>u\<close> of a 2 x 3 grid ends at 2.
\<close>

theorem C1_range_end_counterexample:
  "\<not> (uIEnd (StaggeredGrid_new (2, 3) (Finite 1, Finite 1)) = 2 + 1
      \<or> uIEnd (StaggeredGrid_new (2, 3) (Finite 1, Finite 1)) = 2 + 2)"
  by (simp add: uIEnd_def StaggeredGrid_new_def)

text \<open>
  C1, amended: for a grid with cell counts \<open>(nx, ny)\<close>, and the grid the constructor builds
  is one, every logical range begins at -1; it ends (exclusively) at the cell count or at
  the cell count + 1 depending on the staggering, so that it has as many indices as the
  field's storage extent, cell count + 1 or cell count + 2; and an accessor maps an
  in-range logical index \<open>(i, j)\<close> to the storage index \<open>(i + 1, j + 1)\<close>.
\<close>

theorem C1_ranges_and_shift:
  assumes "m_nCells d = (nx, ny)"
  shows "uIBegin d = -1 \<and> uJBegin d = -1 \<and> vIBegin d = -1 \<and> vJBegin d = -1
       \<and> pIBegin d = -1 \<and> pJBegin d = -1
       \<and> uIEnd d = nx \<and> uJEnd d = ny + 1
       \<and> vIEnd d = nx + 1 \<and> vJEnd d = ny
       \<and> pIEnd d = nx + 1 \<and> pJEnd d = ny + 1
       \<and> (inRangeU d i j \<longrightarrow>
            u_ref d i j = Inr (i + 1, j + 1) \<and> f_ref d i j = Inr (i + 1, j + 1)
            \<and> u_const d i j = Inr (m_data (m_u d) (i + 1, j + 1)))
       \<and> (inRangeV d i j \<longrightarrow>
            v_ref d i j = Inr (i + 1, j + 1) \<and> g_ref d i j = Inr (i + 1, j + 1)
            \<and> v_const d i j = Inr (m_data (m_v d) (i + 1, j + 1)))
       \<and> (inRangeP d i j \<longrightarrow>
            p_ref d i j = Inr (i + 1, j + 1) \<and> rhs_ref d i j = Inr (i + 1, j + 1)
            \<and> p_const d i j = Inr (m_data (m_p d) (i + 1, j + 1)))
       \<and> m_nCells (StaggeredGrid_new (nx, ny) mw) = (nx, ny)
       \<and> m_size (m_u (StaggeredGrid_new (nx, ny) mw)) = (nx + 1, ny + 2)
       \<and> m_size (m_v (StaggeredGrid_new (nx, ny) mw)) = (nx + 2, ny + 1)
       \<and> m_size (m_p (StaggeredGrid_new (nx, ny) mw)) = (nx + 2, ny + 2)
       \<and> m_size (m_f (StaggeredGrid_new (nx, ny) mw)) = (nx + 1, ny + 2)
       \<and> m_size (m_g (StaggeredGrid_new (nx, ny) mw)) = (nx + 2, ny + 1)
       \<and> m_size (m_rhs (StaggeredGrid_new (nx, ny) mw)) = (nx + 2, ny + 2)"
  using assms
  by (simp add: range_defs inRange_defs ref_defs const_defs StaggeredGrid_new_def
      FieldVariable_new_def)

text \<open>
  On the 2 x 3 grid: the ends of two ranges, and the last in-range index of each
  staggering with its storage cell.
\<close>

theorem C1_ranges_and_shift_witness:
  "uIEnd (StaggeredGrid_new (2, 3) (Finite 1, Finite 1)) = 2
   \<and> vJEnd (StaggeredGrid_new (2, 3) (Finite 1, Finite 1)) = 3
   \<and> inRangeU (StaggeredGrid_new (2, 3) (Finite 1, Finite 1)) (-1) 3
   \<and> u_ref (StaggeredGrid_new (2, 3) (Finite 1, Finite 1)) (-1) 3 = Inr (0, 4)
   \<and> inRangeV (StaggeredGrid_new (2, 3) (Finite 1, Finite 1)) 2 2
   \<and> v_ref (StaggeredGrid_new (2, 3) (Finite 1, Finite 1)) 2 2 = Inr (3, 3)
   \<and> inRangeP (StaggeredGrid_new (2, 3) (Finite 1, Finite 1)) 2 3
   \<and> p_ref (StaggeredGrid_new (2, 3) (Finite 1, Finite 1)) 2 3 = Inr (3, 4)"
proof -
  let ?d = "StaggeredGrid_new (2, 3) (Finite 1, Finite 1)"
  have n: "m_nCells ?d = (2, 3)"
    by (simp add: StaggeredGrid_new_def)
  have u: "inRangeU ?d (-1) 3" and v: "inRangeV ?d 2 2" and p: "inRangeP ?d 2 3"
    by (simp_all add: inRange_defs range_defs StaggeredGrid_new_def)
  show ?thesis
    using C1_ranges_and_shift [OF n, of "-1" 3 "(Finite 1, Finite 1)"]
      C1_ranges_and_shift [OF n, of 2 2 "(Finite 1, Finite 1)"]
      C1_ranges_and_shift [OF n, of 2 3 "(Finite 1, Finite 1)"] u v p
    by simp
qed

text \<open>
  C9: each of the nine accessors, at a logical index outside the valid range of its field,
  ends in the fatal error, whose line names the field, the offending index and the valid
  range of that index, and returns no value; at an index inside the range it returns the
  cell (or its value) and no error.
\<close>

theorem C9_index_out_of_range:
  "(inRangeU d i j \<longrightarrow>
      u_const d i j = Inr (m_data (m_u d) (i + 1, j + 1))
      \<and> u_ref d i j = Inr (i + 1, j + 1) \<and> f_ref d i j = Inr (i + 1, j + 1))
   \<and> (\<not> inRangeU d i j \<longrightarrow>
      reportsOutOfRange ''u'' i j (uIBegin d, uIEnd d) (uJBegin d, uJEnd d) (u_const d i j)
      \<and> reportsOutOfRange ''u'' i j (uIBegin d, uIEnd d) (uJBegin d, uJEnd d) (u_ref d i j)
      \<and> reportsOutOfRange ''f'' i j (uIBegin d, uIEnd d) (uJBegin d, uJEnd d) (f_ref d i j))
   \<and> (inRangeV d i j \<longrightarrow>
      v_const d i j = Inr (m_data (m_v d) (i + 1, j + 1))
      \<and> v_ref d i j = Inr (i + 1, j + 1) \<and> g_ref d i j = Inr (i + 1, j + 1))
   \<and> (\<not> inRangeV d i j \<longrightarrow>
      reportsOutOfRange ''v'' i j (vIBegin d, vIEnd d) (vJBegin d, vJEnd d) (v_const d i j)
      \<and> reportsOutOfRange ''v'' i j (vIBegin d, vIEnd d) (vJBegin d, vJEnd d) (v_ref d i j)
      \<and> reportsOutOfRange ''g'' i j (vIBegin d, vIEnd d) (vJBegin d, vJEnd d) (g_ref d i j))
   \<and> (inRangeP d i j \<longrightarrow>
      p_const d i j = Inr (m_data (m_p d) (i + 1, j + 1))
      \<and> p_ref d i j = Inr (i + 1, j + 1) \<and> rhs_ref d i j = Inr (i + 1, j + 1))
   \<and> (\<not> inRangeP d i j \<longrightarrow>
      reportsOutOfRange ''p'' i j (pIBegin d, pIEnd d) (pJBegin d, pJEnd d) (p_const d i j)
      \<and> reportsOutOfRange ''p'' i j (pIBegin d, pIEnd d) (pJBegin d, pJEnd d) (p_ref d i j)
      \<and> reportsOutOfRange ''rhs'' i j (pIBegin d, pIEnd d) (pJBegin d, pJEnd d)
          (rhs_ref d i j))"
  by (simp add: inRange_defs ref_defs const_defs reportsOutOfRange_def)

text \<open>
  On the 2 x 3 grid: for each staggering an index inside the range with its cell, and one
  outside with the error.
\<close>

theorem C9_index_out_of_range_witness:
  "inRangeU (StaggeredGrid_new (2, 3) (Finite 1, Finite 1)) 1 0
   \<and> u_ref (StaggeredGrid_new (2, 3) (Finite 1, Finite 1)) 1 0 = Inr (2, 1)
   \<and> \<not> inRangeU (StaggeredGrid_new (2, 3) (Finite 1, Finite 1)) 2 0
   \<and> u_ref (StaggeredGrid_new (2, 3) (Finite 1, Finite 1)) 2 0
       = Inl (IndexOutOfRange ''i'' ''u'' 2 (-1) 2)
   \<and> inRangeV (StaggeredGrid_new (2, 3) (Finite 1, Finite 1)) 2 0
   \<and> g_ref (StaggeredGrid_new (2, 3) (Finite 1, Finite 1)) 2 0 = Inr (3, 1)
   \<and> \<not> inRangeV (StaggeredGrid_new (2, 3) (Finite 1, Finite 1)) 2 3
   \<and> reportsOutOfRange ''g'' 2 3 (-1, 3) (-1, 3)
        (g_ref (StaggeredGrid_new (2, 3) (Finite 1, Finite 1)) 2 3)
   \<and> inRangeP (StaggeredGrid_new (2, 3) (Finite 1, Finite 1)) 2 3
   \<and> rhs_ref (StaggeredGrid_new (2, 3) (Finite 1, Finite 1)) 2 3 = Inr (3, 4)
   \<and> \<not> inRangeP (StaggeredGrid_new (2, 3) (Finite 1, Finite 1)) (-2) 3
   \<and> reportsOutOfRange ''p'' (-2) 3 (-1, 3) (-1, 4)
        (p_const (StaggeredGrid_new (2, 3) (Finite 1, Finite 1)) (-2) 3)"
proof -
  let ?d = "StaggeredGrid_new (2, 3) (Finite 1, Finite 1)"
  have n: "m_nCells ?d = (2, 3)"
    by (simp add: StaggeredGrid_new_def)
  have r: "inRangeU ?d 1 0" "\<not> inRangeU ?d 2 0" "inRangeV ?d 2 0" "\<not> inRangeV ?d 2 3"
    "inRangeP ?d 2 3" "\<not> inRangeP ?d (-2) 3"
    by (simp_all add: inRange_defs range_defs n)
  have e: "u_ref ?d 2 0 = Inl (IndexOutOfRange ''i'' ''u'' 2 (-1) 2)"
    by (simp add: u_ref_def range_defs n)
  show ?thesis
    using C9_index_out_of_range [of ?d 1 0] C9_index_out_of_range [of ?d 2 0]
      C9_index_out_of_range [of ?d 2 3] C9_index_out_of_range [of ?d "-2" 3] r e
    by (simp add: range_defs n)
qed
section \<open>Sequencing and loops\<close>

lemma ebind_Inr [simp]: "ebind (Inr x) f = f x"
  by (simp add: ebind_def)

lemma ebind_Inl [simp]: "ebind (Inl e) f = Inl e"
  by (simp add: ebind_def)

lemma for_loop_unfold:
  "i < hi \<Longrightarrow> body i s = Inr s' \<Longrightarrow> for_loop i hi body s = for_loop (i + 1) hi body s'"
  by (subst for_loop.simps) simp

lemma for_loop_done: "\<not> i < hi \<Longrightarrow> for_loop i hi body s = Inr s"
  by (subst for_loop.simps) simp

text \<open>
  A loop whose state after the rounds below \<open>i\<close> is known to be \<open>cl i\<close> ends in \<open>cl hi\<close>.
\<close>

lemma for_loop_closed:
  assumes "\<And>i. lo \<le> i \<Longrightarrow> i < hi \<Longrightarrow> body i (cl i) = Inr (cl (i + 1))"
    and "lo \<le> hi"
  shows "for_loop lo hi body (cl lo) = Inr (cl hi)"
  using assms
proof (induction "nat (hi - lo)" arbitrary: lo)
  case 0
  then have "lo = hi" by simp
  then show ?case by (simp add: for_loop_done)
next
  case (Suc n)
  then have lt: "lo < hi" by linarith
  have step: "body lo (cl lo) = Inr (cl (lo + 1))"
    using Suc.prems(1) [of lo] lt by simp
  have "for_loop (lo + 1) hi body (cl (lo + 1)) = Inr (cl hi)"
  proof (rule Suc.hyps(1))
    show "n = nat (hi - (lo + 1))" using Suc.hyps(2) by linarith
    show "\<And>i. lo + 1 \<le> i \<Longrightarrow> i < hi \<Longrightarrow> body i (cl i) = Inr (cl (i + 1))"
      using Suc.prems(1) by simp
    show "lo + 1 \<le> hi" using lt by simp
  qed
  then show ?case
    using for_loop_unfold [of lo hi body "cl lo" "cl (lo + 1)"] lt step by simp
qed

section \<open>Reads and writes inside the range\<close>

lemma u_at_in: "inRangeU d i j \<Longrightarrow> u_at d i j = Inr (m_data (m_u d) (i + 1, j + 1))"
  by (simp add: u_at_def u_ref_def inRangeU_def)

lemma u_set_in:
  "inRangeU d i j \<Longrightarrow> u_set d i j val = Inr (d\<lparr>m_u := put (m_u d) (i + 1, j + 1) val\<rparr>)"
  by (simp add: u_set_def u_ref_def inRangeU_def)

lemma v_at_in: "inRangeV d i j \<Longrightarrow> v_at d i j = Inr (m_data (m_v d) (i + 1, j + 1))"
  by (simp add: v_at_def v_ref_def inRangeV_def)

lemma v_set_in:
  "inRangeV d i j \<Longrightarrow> v_set d i j val = Inr (d\<lparr>m_v := put (m_v d) (i + 1, j + 1) val\<rparr>)"
  by (simp add: v_set_def v_ref_def inRangeV_def)

lemma f_at_in: "inRangeU d i j \<Longrightarrow> f_at d i j = Inr (m_data (m_f d) (i + 1, j + 1))"
  by (simp add: f_at_def f_ref_def inRangeU_def)

lemma f_set_in:
  "inRangeU d i j \<Longrightarrow> f_set d i j val = Inr (d\<lparr>m_f := put (m_f d) (i + 1, j + 1) val\<rparr>)"
  by (simp add: f_set_def f_ref_def inRangeU_def)

lemma g_at_in: "inRangeV d i j \<Longrightarrow> g_at d i j = Inr (m_data (m_g d) (i + 1, j + 1))"
  by (simp add: g_at_def g_ref_def inRangeV_def)

lemma g_set_in:
  "inRangeV d i j \<Longrightarrow> g_set d i j val = Inr (d\<lparr>m_g := put (m_g d) (i + 1, j + 1) val\<rparr>)"
  by (simp add: g_set_def g_ref_def inRangeV_def)

lemma p_at_in: "inRangeP d i j \<Longrightarrow> p_at d i j = Inr (m_data (m_p d) (i + 1, j + 1))"
  by (simp add: p_at_def p_ref_def inRangeP_def)

lemma rhs_at_in: "inRangeP d i j \<Longrightarrow> rhs_at d i j = Inr (m_data (m_rhs d) (i + 1, j + 1))"
  by (simp add: rhs_at_def rhs_ref_def inRangeP_def)


lemmas at_in = u_at_in v_at_in f_at_in g_at_in p_at_in rhs_at_in


lemmas with_defs = withU_def withV_def withF_def withG_def

section \<open>The loops of applyBoundaryValues\<close>

lemma bottomTopMirror_0: "bottomTopMirror ytop bB bT 0 D = D"
  by (auto simp: bottomTopMirror_def fun_eq_iff)

lemma bottomTopDirect_0: "bottomTopDirect ytop bB bT 0 D = D"
  by (auto simp: bottomTopDirect_def fun_eq_iff)

lemma leftRightDirect_0: "leftRightDirect xr bL bR 0 D = D"
  by (auto simp: leftRightDirect_def fun_eq_iff)

lemma leftRightMirror_0: "leftRightMirror xr bL bR 0 D = D"
  by (auto simp: leftRightMirror_def fun_eq_iff)

lemma bottomTopCopy_0: "bottomTopCopy ytop 0 S D = D"
  by (auto simp: bottomTopCopy_def fun_eq_iff)

lemma leftRightCopy_0: "leftRightCopy xr 0 S D = D"
  by (auto simp: leftRightCopy_def fun_eq_iff)

lemma bottomTopMirror_step:
  "0 \<le> k \<Longrightarrow> 2 \<le> ytop \<Longrightarrow>
   (bottomTopMirror ytop bB bT k D)
     ((k, 0) := Finite 2 * bB - D (k, 1), (k, ytop) := Finite 2 * bT - D (k, ytop - 1))
   = bottomTopMirror ytop bB bT (k + 1) D"
  by (auto simp: bottomTopMirror_def fun_eq_iff)

lemma bottomTopDirect_step:
  "0 \<le> k \<Longrightarrow>
   (bottomTopDirect ytop bB bT k D)((k, 0) := bB, (k, ytop) := bT)
   = bottomTopDirect ytop bB bT (k + 1) D"
  by (auto simp: bottomTopDirect_def fun_eq_iff)

lemma leftRightDirect_step:
  "0 \<le> k \<Longrightarrow>
   (leftRightDirect xr bL bR k D)((0, k) := bL, (xr, k) := bR)
   = leftRightDirect xr bL bR (k + 1) D"
  by (auto simp: leftRightDirect_def fun_eq_iff)

lemma leftRightMirror_step:
  "0 \<le> k \<Longrightarrow> 2 \<le> xr \<Longrightarrow>
   (leftRightMirror xr bL bR k D)
     ((0, k) := Finite 2 * bL - D (1, k), (xr, k) := Finite 2 * bR - D (xr - 1, k))
   = leftRightMirror xr bL bR (k + 1) D"
  by (auto simp: leftRightMirror_def fun_eq_iff)

lemma bottomTopCopy_step:
  "0 \<le> k \<Longrightarrow>
   (bottomTopCopy ytop k S D)((k, 0) := S (k, 0), (k, ytop) := S (k, ytop))
   = bottomTopCopy ytop (k + 1) S D"
  by (auto simp: bottomTopCopy_def fun_eq_iff)

lemma leftRightCopy_step:
  "0 \<le> k \<Longrightarrow>
   (leftRightCopy xr k S D)((0, k) := S (0, k), (xr, k) := S (xr, k))
   = leftRightCopy xr (k + 1) S D"
  by (auto simp: leftRightCopy_def fun_eq_iff)

lemma loopBottomTopU:
  assumes "m_nCells d = (nx, ny)" "0 \<le> nx" "1 \<le> ny"
  shows "for_loop (uIBegin d) (uIEnd d) (setBottomTopU s) d
    = Inr (withU d (bottomTopMirror (ny + 1) (fst (dirichletBcBottom s))
        (fst (dirichletBcTop s)) (nx + 1) (m_data (m_u d))))"
proof -
  let ?cl = "\<lambda>i. withU d (bottomTopMirror (ny + 1) (fst (dirichletBcBottom s))
      (fst (dirichletBcTop s)) (i + 1) (m_data (m_u d)))"
  have "for_loop (-1) nx (setBottomTopU s) (?cl (-1)) = Inr (?cl nx)"
  proof (rule for_loop_closed)
    fix i :: int
    assume i: "-1 \<le> i" "i < nx"
    show "setBottomTopU s i (?cl i) = Inr (?cl (i + 1))"
      using i assms bottomTopMirror_step [of "i + 1" "ny + 1" "fst (dirichletBcBottom s)"
          "fst (dirichletBcTop s)" "m_data (m_u d)"]
      apply (simp add: setBottomTopU_def u_at_in u_set_in inRangeU_def range_defs withU_def
          put_def)
      apply (simp add: bottomTopMirror_def)
      done
  qed (use assms in simp)
  then show ?thesis
    using assms by (simp add: bottomTopMirror_0 withU_def range_defs add.commute)
qed

lemma loopBottomTopV:
  assumes "m_nCells d = (nx, ny)" "0 \<le> nx" "1 \<le> ny"
  shows "for_loop (vIBegin d) (vIEnd d) (setBottomTopV s) d
    = Inr (withV d (bottomTopDirect ny (snd (dirichletBcBottom s))
        (snd (dirichletBcTop s)) (nx + 2) (m_data (m_v d))))"
proof -
  let ?cl = "\<lambda>i. withV d (bottomTopDirect ny (snd (dirichletBcBottom s))
      (snd (dirichletBcTop s)) (i + 1) (m_data (m_v d)))"
  have "for_loop (-1) (nx + 1) (setBottomTopV s) (?cl (-1)) = Inr (?cl (nx + 1))"
  proof (rule for_loop_closed)
    fix i :: int
    assume i: "-1 \<le> i" "i < nx + 1"
    show "setBottomTopV s i (?cl i) = Inr (?cl (i + 1))"
      using i assms bottomTopDirect_step [of "i + 1" ny "snd (dirichletBcBottom s)"
          "snd (dirichletBcTop s)" "m_data (m_v d)"]
      by (simp add: setBottomTopV_def v_set_in inRangeV_def range_defs withV_def put_def)
  qed (use assms in simp)
  then show ?thesis
    using assms by (simp add: bottomTopDirect_0 withV_def range_defs add.commute)
qed

lemma loopLeftRightU:
  assumes "m_nCells d = (nx, ny)" "1 \<le> nx" "0 \<le> ny"
  shows "for_loop (uJBegin d) (uJEnd d) (setLeftRightU s) d
    = Inr (withU d (leftRightDirect nx (fst (dirichletBcLeft s))
        (fst (dirichletBcRight s)) (ny + 2) (m_data (m_u d))))"
proof -
  let ?cl = "\<lambda>j. withU d (leftRightDirect nx (fst (dirichletBcLeft s))
      (fst (dirichletBcRight s)) (j + 1) (m_data (m_u d)))"
  have "for_loop (-1) (ny + 1) (setLeftRightU s) (?cl (-1)) = Inr (?cl (ny + 1))"
  proof (rule for_loop_closed)
    fix j :: int
    assume j: "-1 \<le> j" "j < ny + 1"
    show "setLeftRightU s j (?cl j) = Inr (?cl (j + 1))"
      using j assms leftRightDirect_step [of "j + 1" nx "fst (dirichletBcLeft s)"
          "fst (dirichletBcRight s)" "m_data (m_u d)"]
      by (simp add: setLeftRightU_def u_set_in inRangeU_def range_defs withU_def put_def)
  qed (use assms in simp)
  then show ?thesis
    using assms by (simp add: leftRightDirect_0 withU_def range_defs add.commute)
qed

lemma loopLeftRightV:
  assumes "m_nCells d = (nx, ny)" "1 \<le> nx" "0 \<le> ny"
  shows "for_loop (vJBegin d) (vJEnd d) (setLeftRightV s) d
    = Inr (withV d (leftRightMirror (nx + 1) (snd (dirichletBcLeft s))
        (snd (dirichletBcRight s)) (ny + 1) (m_data (m_v d))))"
proof -
  let ?cl = "\<lambda>j. withV d (leftRightMirror (nx + 1) (snd (dirichletBcLeft s))
      (snd (dirichletBcRight s)) (j + 1) (m_data (m_v d)))"
  have "for_loop (-1) ny (setLeftRightV s) (?cl (-1)) = Inr (?cl ny)"
  proof (rule for_loop_closed)
    fix j :: int
    assume j: "-1 \<le> j" "j < ny"
    show "setLeftRightV s j (?cl j) = Inr (?cl (j + 1))"
      using j assms leftRightMirror_step [of "j + 1" "nx + 1" "snd (dirichletBcLeft s)"
          "snd (dirichletBcRight s)" "m_data (m_v d)"]
      apply (simp add: setLeftRightV_def v_at_in v_set_in inRangeV_def range_defs withV_def
          put_def)
      apply (simp add: leftRightMirror_def)
      done
  qed (use assms in simp)
  then show ?thesis
    using assms by (simp add: leftRightMirror_0 withV_def range_defs add.commute)
qed

lemma loopBottomTopF:
  assumes "m_nCells d = (nx, ny)" "0 \<le> nx" "0 \<le> ny"
  shows "for_loop (uIBegin d) (uIEnd d) setBottomTopF d
    = Inr (withF d (bottomTopCopy (ny + 1) (nx + 1) (m_data (m_u d)) (m_data (m_f d))))"
proof -
  let ?cl = "\<lambda>i. withF d (bottomTopCopy (ny + 1) (i + 1) (m_data (m_u d)) (m_data (m_f d)))"
  have "for_loop (-1) nx setBottomTopF (?cl (-1)) = Inr (?cl nx)"
  proof (rule for_loop_closed)
    fix i :: int
    assume i: "-1 \<le> i" "i < nx"
    show "setBottomTopF i (?cl i) = Inr (?cl (i + 1))"
      using i assms bottomTopCopy_step [of "i + 1" "ny + 1" "m_data (m_u d)" "m_data (m_f d)"]
      by (simp add: setBottomTopF_def u_at_in f_set_in inRangeU_def range_defs withF_def
          put_def)
  qed (use assms in simp)
  then show ?thesis
    using assms by (simp add: bottomTopCopy_0 withF_def range_defs add.commute)
qed

lemma loopBottomTopG:
  assumes "m_nCells d = (nx, ny)" "0 \<le> nx" "1 \<le> ny"
  shows "for_loop (vIBegin d) (vIEnd d) setBottomTopG d
    = Inr (withG d (bottomTopCopy ny (nx + 2) (m_data (m_v d)) (m_data (m_g d))))"
proof -
  let ?cl = "\<lambda>i. withG d (bottomTopCopy ny (i + 1) (m_data (m_v d)) (m_data (m_g d)))"
  have "for_loop (-1) (nx + 1) setBottomTopG (?cl (-1)) = Inr (?cl (nx + 1))"
  proof (rule for_loop_closed)
    fix i :: int
    assume i: "-1 \<le> i" "i < nx + 1"
    show "setBottomTopG i (?cl i) = Inr (?cl (i + 1))"
      using i assms bottomTopCopy_step [of "i + 1" ny "m_data (m_v d)" "m_data (m_g d)"]
      by (simp add: setBottomTopG_def v_at_in g_set_in inRangeV_def range_defs withG_def
          put_def)
  qed (use assms in simp)
  then show ?thesis
    using assms by (simp add: bottomTopCopy_0 withG_def range_defs add.commute)
qed

lemma loopLeftRightF:
  assumes "m_nCells d = (nx, ny)" "1 \<le> nx" "0 \<le> ny"
  shows "for_loop (uJBegin d) (uJEnd d) setLeftRightF d
    = Inr (withF d (leftRightCopy nx (ny + 2) (m_data (m_u d)) (m_data (m_f d))))"
proof -
  let ?cl = "\<lambda>j. withF d (leftRightCopy nx (j + 1) (m_data (m_u d)) (m_data (m_f d)))"
  have "for_loop (-1) (ny + 1) setLeftRightF (?cl (-1)) = Inr (?cl (ny + 1))"
  proof (rule for_loop_closed)
    fix j :: int
    assume j: "-1 \<le> j" "j < ny + 1"
    show "setLeftRightF j (?cl j) = Inr (?cl (j + 1))"
      using j assms leftRightCopy_step [of "j + 1" nx "m_data (m_u d)" "m_data (m_f d)"]
      by (simp add: setLeftRightF_def u_at_in f_set_in inRangeU_def range_defs withF_def
          put_def)
  qed (use assms in simp)
  then show ?thesis
    using assms by (simp add: leftRightCopy_0 withF_def range_defs add.commute)
qed

lemma loopLeftRightG:
  assumes "m_nCells d = (nx, ny)" "0 \<le> nx" "0 \<le> ny"
  shows "for_loop (vJBegin d) (vJEnd d) setLeftRightG d
    = Inr (withG d (leftRightCopy (nx + 1) (ny + 1) (m_data (m_v d)) (m_data (m_g d))))"
proof -
  let ?cl = "\<lambda>j. withG d (leftRightCopy (nx + 1) (j + 1) (m_data (m_v d)) (m_data (m_g d)))"
  have "for_loop (-1) ny setLeftRightG (?cl (-1)) = Inr (?cl ny)"
  proof (rule for_loop_closed)
    fix j :: int
    assume j: "-1 \<le> j" "j < ny"
    show "setLeftRightG j (?cl j) = Inr (?cl (j + 1))"
      using j assms leftRightCopy_step [of "j + 1" "nx + 1" "m_data (m_v d)" "m_data (m_g d)"]
      by (simp add: setLeftRightG_def v_at_in g_set_in inRangeV_def range_defs withG_def
          put_def)
  qed (use assms in simp)
  then show ?thesis
    using assms by (simp add: leftRightCopy_0 withG_def range_defs add.commute)
qed

lemma applyBoundaryValues_grid_closed:
  assumes n: "m_nCells d = (nx, ny)" and nx: "1 \<le> nx" and ny: "1 \<le> ny"
  shows "applyBoundaryValues_grid s d = Inr (boundaryGrid s d)"
proof -
  define d1 where "d1 = withU d (bottomTopMirror (ny + 1) (fst (dirichletBcBottom s))
      (fst (dirichletBcTop s)) (nx + 1) (m_data (m_u d)))"
  define d2 where "d2 = withV d1 (bottomTopDirect ny (snd (dirichletBcBottom s))
      (snd (dirichletBcTop s)) (nx + 2) (m_data (m_v d1)))"
  define d3 where "d3 = withU d2 (leftRightDirect nx (fst (dirichletBcLeft s))
      (fst (dirichletBcRight s)) (ny + 2) (m_data (m_u d2)))"
  define d4 where "d4 = withV d3 (leftRightMirror (nx + 1) (snd (dirichletBcLeft s))
      (snd (dirichletBcRight s)) (ny + 1) (m_data (m_v d3)))"
  define d5 where "d5 = withF d4 (bottomTopCopy (ny + 1) (nx + 1) (m_data (m_u d4))
      (m_data (m_f d4)))"
  define d6 where "d6 = withG d5 (bottomTopCopy ny (nx + 2) (m_data (m_v d5))
      (m_data (m_g d5)))"
  define d7 where "d7 = withF d6 (leftRightCopy nx (ny + 2) (m_data (m_u d6))
      (m_data (m_f d6)))"
  define d8 where "d8 = withG d7 (leftRightCopy (nx + 1) (ny + 1) (m_data (m_v d7))
      (m_data (m_g d7)))"
  note ds = d1_def d2_def d3_def d4_def d5_def d6_def d7_def d8_def
  have n1: "m_nCells d1 = (nx, ny)" and n2: "m_nCells d2 = (nx, ny)"
    and n3: "m_nCells d3 = (nx, ny)" and n4: "m_nCells d4 = (nx, ny)"
    and n5: "m_nCells d5 = (nx, ny)" and n6: "m_nCells d6 = (nx, ny)"
    and n7: "m_nCells d7 = (nx, ny)"
    using n by (simp_all add: ds with_defs)
  have nx0: "0 \<le> nx" and ny0: "0 \<le> ny"
    using nx ny by simp_all
  have l1: "for_loop (uIBegin d) (uIEnd d) (setBottomTopU s) d = Inr d1"
    unfolding d1_def by (rule loopBottomTopU [OF n nx0 ny])
  have l2: "for_loop (vIBegin d1) (vIEnd d1) (setBottomTopV s) d1 = Inr d2"
    unfolding d2_def by (rule loopBottomTopV [OF n1 nx0 ny])
  have l3: "for_loop (uJBegin d2) (uJEnd d2) (setLeftRightU s) d2 = Inr d3"
    unfolding d3_def by (rule loopLeftRightU [OF n2 nx ny0])
  have l4: "for_loop (vJBegin d3) (vJEnd d3) (setLeftRightV s) d3 = Inr d4"
    unfolding d4_def by (rule loopLeftRightV [OF n3 nx ny0])
  have l5: "for_loop (uIBegin d4) (uIEnd d4) setBottomTopF d4 = Inr d5"
    unfolding d5_def by (rule loopBottomTopF [OF n4 nx0 ny0])
  have l6: "for_loop (vIBegin d5) (vIEnd d5) setBottomTopG d5 = Inr d6"
    unfolding d6_def by (rule loopBottomTopG [OF n5 nx0 ny])
  have l7: "for_loop (uJBegin d6) (uJEnd d6) setLeftRightF d6 = Inr d7"
    unfolding d7_def by (rule loopLeftRightF [OF n6 nx ny0])
  have l8: "for_loop (vJBegin d7) (vJEnd d7) setLeftRightG d7 = Inr d8"
    unfolding d8_def by (rule loopLeftRightG [OF n7 nx0 ny0])
  have "applyBoundaryValues_grid s d = Inr d8"
    by (simp add: applyBoundaryValues_grid_def l1 l2 l3 l4 l5 l6 l7 l8)
  moreover have "d8 = boundaryGrid s d"
    using n by (simp add: ds with_defs boundaryGrid_def boundaryU_def boundaryV_def)
  ultimately show ?thesis by simp
qed

section \<open>Properties of applyBoundaryValues\<close>

lemma boundaryGrid_nCells [simp]: "m_nCells (boundaryGrid s d) = m_nCells d"
  by (simp add: boundaryGrid_def with_defs)

lemma applyBoundaryValues_closed:
  assumes "m_nCells (m_discretization c) = (nx, ny)" "1 \<le> nx" "1 \<le> ny"
  shows "applyBoundaryValues c
    = Inr (c\<lparr>m_discretization := boundaryGrid (m_settings c) (m_discretization c)\<rparr>)"
  using applyBoundaryValues_grid_closed [OF assms]
  by (simp add: applyBoundaryValues_def)

lemma boundaryGrid_data:
  "m_data (m_u (boundaryGrid s d)) = boundaryU s d"
  "m_data (m_v (boundaryGrid s d)) = boundaryV s d"
  "m_data (m_f (boundaryGrid s d))
    = leftRightCopy (fst (m_nCells d)) (snd (m_nCells d) + 2) (boundaryU s d)
          (bottomTopCopy (snd (m_nCells d) + 1) (fst (m_nCells d) + 1) (boundaryU s d)
             (m_data (m_f d)))"
  "m_data (m_g (boundaryGrid s d))
    = leftRightCopy (fst (m_nCells d) + 1) (snd (m_nCells d) + 1) (boundaryV s d)
          (bottomTopCopy (snd (m_nCells d)) (fst (m_nCells d) + 2) (boundaryV s d)
             (m_data (m_g d)))"
  "m_p (boundaryGrid s d) = m_p d"
  "m_rhs (boundaryGrid s d) = m_rhs d"
  by (simp_all add: boundaryGrid_def with_defs)

lemmas closed_defs = boundaryU_def boundaryV_def leftRightDirect_def leftRightMirror_def
  bottomTopMirror_def bottomTopDirect_def leftRightCopy_def bottomTopCopy_def

lemma boundaryGrid_corners:
  assumes "m_nCells d = (nx, ny)" "1 \<le> nx" "1 \<le> ny"
  shows "cornersHoldSideValues s (boundaryGrid s d)"
  using assms
  by (simp add: cornersHoldSideValues_def at_in inRange_defs range_defs boundaryGrid_data
      closed_defs)

lemma Finite_mirror_neq:
  "isFinite a \<Longrightarrow> isFinite b \<Longrightarrow> a \<noteq> b \<Longrightarrow> Finite 2 * a - b \<noteq> b"
  "isFinite a \<Longrightarrow> isFinite b \<Longrightarrow> a \<noteq> b \<Longrightarrow> b \<noteq> Finite 2 * a - b"
  "isFinite a \<Longrightarrow> isFinite b \<Longrightarrow> a \<noteq> b \<Longrightarrow> Finite 2 * a - b \<noteq> a"
  "isFinite a \<Longrightarrow> isFinite b \<Longrightarrow> a \<noteq> b \<Longrightarrow> a \<noteq> Finite 2 * b - a"
  by (cases a; cases b; simp add: minus_double_def)+

lemma boundaryGrid_not_bottomTop:
  assumes "m_nCells d = (nx, ny)" "1 \<le> nx" "1 \<le> ny" "distinctDirichletValues s"
  shows "\<not> someCornerHoldsBottomTopValue s (boundaryGrid s d)"
  using assms
  by (simp add: someCornerHoldsBottomTopValue_def distinctDirichletValues_def at_in
      inRange_defs range_defs boundaryGrid_data closed_defs Finite_mirror_neq)

text \<open>
  C5: on a grid of at least one cell in each direction applyBoundaryValues returns, and
  afterwards every corner cell of \<open>u\<close> and of \<open>v\<close> holds the value of the side rule: the
  corners of \<open>u\<close> hold the left or right Dirichlet value, the corners of \<open>v\<close> the mirror
  of their neighbour on the bottom or top edge at the left or right Dirichlet value.
  When the side values differ from the bottom and top values, no corner holds what the
  bottom/top rule gives.
\<close>

theorem C5_corners_hold_side_values:
  assumes "m_nCells (m_discretization c) = (nx, ny)" "1 \<le> nx" "1 \<le> ny"
  shows "\<exists>c'. applyBoundaryValues c = Inr c'
    \<and> cornersHoldSideValues (m_settings c) (m_discretization c')
    \<and> (distinctDirichletValues (m_settings c) \<longrightarrow>
         \<not> someCornerHoldsBottomTopValue (m_settings c) (m_discretization c'))"
  using applyBoundaryValues_closed [OF assms] boundaryGrid_corners [OF assms]
    boundaryGrid_not_bottomTop [OF assms]
  by simp


text \<open>The example: \<^verbatim>\<open>initialize\<close> on the example settings gives the example computation.\<close>

lemma exampleComputation_initialize: "initialize exampleSettings = Inr exampleComputation"
  by (simp add: initialize_def exampleSettings_def exampleComputation_def Let_def)

lemma exampleComputation_nCells:
  "m_nCells (m_discretization exampleComputation) = (2, 2)"
  by (simp add: exampleComputation_def StaggeredGrid_new_def)

lemma exampleSettings_distinct: "distinctDirichletValues (m_settings exampleComputation)"
  by (simp add: distinctDirichletValues_def exampleComputation_def exampleSettings_def)

text \<open>
  On the example, whose eight Dirichlet values differ: the bottom left corner of \<open>u\<close> holds
  the left value 5, the top right corner of \<open>v\<close> holds \<open>2 * 8 - 4\<close>.
\<close>

theorem C5_corners_hold_side_values_witness:
  "\<exists>c'. applyBoundaryValues exampleComputation = Inr c'
     \<and> cornersHoldSideValues exampleSettings (m_discretization c')
     \<and> u_at (m_discretization c') (-1) (-1) = Inr (Finite 5)
     \<and> v_at (m_discretization c') 2 1 = Inr (Finite (2 * 8 - 4))
     \<and> distinctDirichletValues exampleSettings
     \<and> \<not> someCornerHoldsBottomTopValue exampleSettings (m_discretization c')"
proof -
  have s: "m_settings exampleComputation = exampleSettings"
    by (simp add: exampleComputation_def)
  obtain c' where c': "applyBoundaryValues exampleComputation = Inr c'"
    "cornersHoldSideValues exampleSettings (m_discretization c')"
    "distinctDirichletValues exampleSettings \<longrightarrow>
       \<not> someCornerHoldsBottomTopValue exampleSettings (m_discretization c')"
    using C5_corners_hold_side_values [OF exampleComputation_nCells] s by auto
  have n: "m_nCells (m_discretization c') = (2, 2)"
    using c'(1) applyBoundaryValues_closed [OF exampleComputation_nCells]
      exampleComputation_nCells
    by auto
  have "u_at (m_discretization c') (-1) (-1) = Inr (Finite 5)"
    "v_at (m_discretization c') 2 1 = Inr (Finite (2 * 8 - 4))"
    using c'(2) n
    by (simp_all add: cornersHoldSideValues_def range_defs exampleSettings_def
        minus_double_def)
  then show ?thesis
    using c' exampleSettings_distinct s by auto
qed


lemma boundaryGrid_edge_values:
  assumes "m_nCells d = (nx, ny)" "1 \<le> nx" "1 \<le> ny"
  shows "edgeU d i j \<longrightarrow>
      (\<exists>a. boundaryValueU s d i j = Inr a
         \<and> u_at (boundaryGrid s d) i j = Inr a \<and> f_at (boundaryGrid s d) i j = Inr a)"
    and "edgeV d i j \<longrightarrow>
      (\<exists>a. boundaryValueV s d i j = Inr a
         \<and> v_at (boundaryGrid s d) i j = Inr a \<and> g_at (boundaryGrid s d) i j = Inr a)"
  using assms
  by (auto simp add: edgeU_def edgeV_def boundaryValueU_def boundaryValueV_def rowValueV_def
      at_in inRange_defs range_defs boundaryGrid_data closed_defs)

text \<open>
  C8: applyBoundaryValues returns, and afterwards, at every cell of the bottom, top, left
  and right edge of the \<open>u\<close>-range, \<open>u\<close> holds the boundary value that the call sets there
  (\<open>boundaryValueU\<close>) and \<open>f\<close> holds the same value; likewise \<open>v\<close> and \<open>g\<close> at every edge
  cell of the \<open>v\<close>-range (\<open>boundaryValueV\<close>).
\<close>

theorem C8_prediction_fields_inherit_boundary_values:
  assumes "m_nCells (m_discretization c) = (nx, ny)" "1 \<le> nx" "1 \<le> ny"
  shows "\<exists>c'. applyBoundaryValues c = Inr c'
    \<and> (\<forall>i j. edgeU (m_discretization c) i j \<longrightarrow>
          edgeU (m_discretization c') i j
          \<and> (\<exists>a. boundaryValueU (m_settings c) (m_discretization c) i j = Inr a
                \<and> u_at (m_discretization c') i j = Inr a
                \<and> f_at (m_discretization c') i j = Inr a))
    \<and> (\<forall>i j. edgeV (m_discretization c) i j \<longrightarrow>
          edgeV (m_discretization c') i j
          \<and> (\<exists>a. boundaryValueV (m_settings c) (m_discretization c) i j = Inr a
                \<and> v_at (m_discretization c') i j = Inr a
                \<and> g_at (m_discretization c') i j = Inr a))"
  using applyBoundaryValues_closed [OF assms] boundaryGrid_edge_values [OF assms]
  by (simp add: edgeU_def edgeV_def inRange_defs range_defs)

text \<open>
  On the example, whose fields are zero before the call: a cell of the left edge of \<open>u\<close>
  holds the left value 5 and a cell of its bottom edge the mirror \<open>2 * 1 - 0\<close>, a cell of
  the bottom edge of \<open>v\<close> holds the bottom value 2 and a cell of its left edge the mirror
  \<open>2 * 6 - 0\<close>; \<open>f\<close> and \<open>g\<close> hold the same.
\<close>

theorem C8_prediction_fields_inherit_boundary_values_witness:
  "\<exists>c'. applyBoundaryValues exampleComputation = Inr c'
     \<and> edgeU (m_discretization exampleComputation) (-1) 1
     \<and> u_at (m_discretization c') (-1) 1 = Inr (Finite 5)
     \<and> f_at (m_discretization c') (-1) 1 = Inr (Finite 5)
     \<and> edgeU (m_discretization exampleComputation) 0 (-1)
     \<and> u_at (m_discretization c') 0 (-1) = Inr (Finite 2)
     \<and> f_at (m_discretization c') 0 (-1) = Inr (Finite 2)
     \<and> edgeV (m_discretization exampleComputation) 1 (-1)
     \<and> v_at (m_discretization c') 1 (-1) = Inr (Finite 2)
     \<and> g_at (m_discretization c') 1 (-1) = Inr (Finite 2)
     \<and> edgeV (m_discretization exampleComputation) (-1) 0
     \<and> v_at (m_discretization c') (-1) 0 = Inr (Finite 12)
     \<and> g_at (m_discretization c') (-1) 0 = Inr (Finite 12)"
proof -
  let ?d = "m_discretization exampleComputation"
  obtain c' where c': "applyBoundaryValues exampleComputation = Inr c'"
    and u: "\<forall>i j. edgeU ?d i j \<longrightarrow>
          edgeU (m_discretization c') i j
          \<and> (\<exists>a. boundaryValueU (m_settings exampleComputation) ?d i j = Inr a
                \<and> u_at (m_discretization c') i j = Inr a
                \<and> f_at (m_discretization c') i j = Inr a)"
    and v: "\<forall>i j. edgeV ?d i j \<longrightarrow>
          edgeV (m_discretization c') i j
          \<and> (\<exists>a. boundaryValueV (m_settings exampleComputation) ?d i j = Inr a
                \<and> v_at (m_discretization c') i j = Inr a
                \<and> g_at (m_discretization c') i j = Inr a)"
    using C8_prediction_fields_inherit_boundary_values [OF exampleComputation_nCells]
    by auto
  have e: "edgeU ?d (-1) 1" "edgeU ?d 0 (-1)" "edgeV ?d 1 (-1)" "edgeV ?d (-1) 0"
    using exampleComputation_nCells
    by (simp_all add: edgeU_def edgeV_def inRange_defs range_defs)
  have b: "boundaryValueU (m_settings exampleComputation) ?d (-1) 1 = Inr (Finite 5)"
    "boundaryValueU (m_settings exampleComputation) ?d 0 (-1) = Inr (Finite 2)"
    "boundaryValueV (m_settings exampleComputation) ?d 1 (-1) = Inr (Finite 2)"
    "boundaryValueV (m_settings exampleComputation) ?d (-1) 0 = Inr (Finite 12)"
    by (simp_all add: boundaryValueU_def boundaryValueV_def rowValueV_def u_at_def v_at_def
        ref_defs range_defs exampleComputation_def exampleSettings_def StaggeredGrid_new_def
        FieldVariable_new_def minus_double_def)
  show ?thesis
    using c' e u [rule_format, OF e(1)] u [rule_format, OF e(2)]
      v [rule_format, OF e(3)] v [rule_format, OF e(4)]
    by (auto simp add: b)
qed

lemma boundaryGrid_frame:
  assumes "m_nCells d = (nx, ny)" "1 \<le> nx" "1 \<le> ny"
  shows "\<not> edgeU d i j \<longrightarrow>
      u_at (boundaryGrid s d) i j = u_at d i j \<and> f_at (boundaryGrid s d) i j = f_at d i j"
    and "\<not> edgeV d i j \<longrightarrow>
      v_at (boundaryGrid s d) i j = v_at d i j \<and> g_at (boundaryGrid s d) i j = g_at d i j"
    and "p_at (boundaryGrid s d) i j = p_at d i j"
    and "rhs_at (boundaryGrid s d) i j = rhs_at d i j"
  using assms
  by (auto simp add: edgeU_def edgeV_def inRange_defs range_defs boundaryGrid_data
      closed_defs u_at_def v_at_def f_at_def g_at_def p_at_def rhs_at_def ref_defs)

text \<open>
  C10: applyBoundaryValues leaves \<open>p\<close> and \<open>rhs\<close> as they are, at every index, and leaves
  \<open>u\<close>, \<open>v\<close>, \<open>f\<close> and \<open>g\<close> as they are at every index that is not an edge cell of the
  range; the cell counts, the mesh widths, the settings and the step width stay too.
\<close>

theorem C10_applyBoundaryValues_frame:
  assumes "m_nCells (m_discretization c) = (nx, ny)" "1 \<le> nx" "1 \<le> ny"
  shows "\<exists>c'. applyBoundaryValues c = Inr c'
    \<and> m_p (m_discretization c') = m_p (m_discretization c)
    \<and> m_rhs (m_discretization c') = m_rhs (m_discretization c)
    \<and> (\<forall>i j. p_at (m_discretization c') i j = p_at (m_discretization c) i j
           \<and> rhs_at (m_discretization c') i j = rhs_at (m_discretization c) i j)
    \<and> (\<forall>i j. \<not> edgeU (m_discretization c) i j \<longrightarrow>
           u_at (m_discretization c') i j = u_at (m_discretization c) i j
           \<and> f_at (m_discretization c') i j = f_at (m_discretization c) i j)
    \<and> (\<forall>i j. \<not> edgeV (m_discretization c) i j \<longrightarrow>
           v_at (m_discretization c') i j = v_at (m_discretization c) i j
           \<and> g_at (m_discretization c') i j = g_at (m_discretization c) i j)
    \<and> m_nCells (m_discretization c') = m_nCells (m_discretization c)
    \<and> StaggeredGrid.m_meshWidth (m_discretization c')
        = StaggeredGrid.m_meshWidth (m_discretization c)
    \<and> m_settings c' = m_settings c \<and> m_meshWidth c' = m_meshWidth c \<and> m_dt c' = m_dt c"
  using applyBoundaryValues_closed [OF assms] boundaryGrid_frame [OF assms]
  by (simp add: boundaryGrid_data boundaryGrid_def with_defs)

text \<open>
  On the example: the pressure, an interior cell of \<open>u\<close> and an interior cell of \<open>v\<close>.
\<close>

theorem C10_applyBoundaryValues_frame_witness:
  "\<exists>c'. applyBoundaryValues exampleComputation = Inr c'
     \<and> m_p (m_discretization c') = m_p (m_discretization exampleComputation)
     \<and> \<not> edgeU (m_discretization exampleComputation) 0 1
     \<and> u_at (m_discretization c') 0 1 = u_at (m_discretization exampleComputation) 0 1
     \<and> \<not> edgeV (m_discretization exampleComputation) 1 0
     \<and> g_at (m_discretization c') 1 0 = g_at (m_discretization exampleComputation) 1 0"
proof -
  have e: "\<not> edgeU (m_discretization exampleComputation) 0 1"
    "\<not> edgeV (m_discretization exampleComputation) 1 0"
    using exampleComputation_nCells by (simp_all add: edgeU_def edgeV_def range_defs)
  show ?thesis
    using C10_applyBoundaryValues_frame [OF exampleComputation_nCells] e by auto
qed

section \<open>The order of the doubles\<close>

lemma less_double_irrefl [simp]: "\<not> (a::double) < a"
  by (cases a) simp_all

lemma less_double_trans: "(a::double) < b \<Longrightarrow> b < c \<Longrightarrow> a < c"
  by (cases a; cases b; cases c) simp_all

section \<open>The scans of computeTimeStepWidth\<close>

text \<open>A loop keeps an invariant \<open>I\<close> of the counter and the state that each round keeps.\<close>

lemma for_loop_invariant:
  assumes "I lo s"
    and "\<And>i s. lo \<le> i \<Longrightarrow> i < hi \<Longrightarrow> I i s \<Longrightarrow> \<exists>s'. body i s = Inr s' \<and> I (i + 1) s'"
    and "lo \<le> hi"
  shows "\<exists>s'. for_loop lo hi body s = Inr s' \<and> I hi s'"
  using assms
proof (induction "nat (hi - lo)" arbitrary: lo s)
  case 0
  then have "lo = hi" by simp
  with 0 show ?case by (simp add: for_loop_done)
next
  case (Suc n)
  then have lt: "lo < hi" by linarith
  obtain s1 where s1: "body lo s = Inr s1" "I (lo + 1) s1"
    using Suc.prems(2) [of lo s] Suc.prems(1) lt by auto
  have "\<exists>s'. for_loop (lo + 1) hi body s1 = Inr s' \<and> I hi s'"
  proof (rule Suc.hyps(1))
    show "n = nat (hi - (lo + 1))" using Suc.hyps(2) by linarith
    show "I (lo + 1) s1" by (rule s1(2))
    show "\<And>i s. lo + 1 \<le> i \<Longrightarrow> i < hi \<Longrightarrow> I i s \<Longrightarrow> \<exists>s'. body i s = Inr s' \<and> I (i + 1) s'"
      using Suc.prems(2) by simp
    show "lo + 1 \<le> hi" using lt by simp
  qed
  then show ?case
    using for_loop_unfold [of lo hi body s s1] lt s1(1) by simp
qed

lemma scanned_empty: "scanned val {} (Finite 0)"
  by (simp add: scanned_def)

lemma scanned_step:
  assumes "scanned val S m"
  shows "scanned val (insert p S) (if m < \<bar>val p\<bar> then \<bar>val p\<bar> else m)"
proof (cases "m < \<bar>val p\<bar>")
  case True
  have "\<not> \<bar>val p\<bar> < \<bar>val q\<bar>" if "q \<in> S" for q
    using assms that True less_double_trans [of m "\<bar>val p\<bar>" "\<bar>val q\<bar>"]
    by (auto simp: scanned_def)
  moreover have "Finite 0 < \<bar>val p\<bar>"
    using assms True less_double_trans [of "Finite 0" m "\<bar>val p\<bar>"]
    by (auto simp: scanned_def)
  ultimately show ?thesis
    using True by (auto simp: scanned_def)
next
  case False
  then show ?thesis
    using assms by (auto simp: scanned_def)
qed

lemma scan_max:
  assumes rd: "\<And>i j. ilo \<le> i \<Longrightarrow> i < ihi \<Longrightarrow> jlo \<le> j \<Longrightarrow> j < jhi \<Longrightarrow> rd i j = Inr (val (i, j))"
    and i: "ilo \<le> ihi" and j: "jlo \<le> jhi"
  shows "\<exists>m. for_loop jlo jhi (\<lambda>j m. for_loop ilo ihi (\<lambda>i m.
            ebind (rd i j) (\<lambda>x. let value = \<bar>x\<bar> in Inr (if m < value then value else m))) m)
          (Finite 0) = Inr m
       \<and> scanned val ({ilo..<ihi} \<times> {jlo..<jhi}) m"
proof (rule for_loop_invariant [where I = "\<lambda>j m. scanned val ({ilo..<ihi} \<times> {jlo..<j}) m"])
  show "scanned val ({ilo..<ihi} \<times> {jlo..<jlo}) (Finite 0)"
    by (simp add: scanned_empty)
  show "jlo \<le> jhi" by (rule j)
  fix j m
  assume jr: "jlo \<le> j" "j < jhi" and m: "scanned val ({ilo..<ihi} \<times> {jlo..<j}) m"
  have "\<exists>m'. for_loop ilo ihi (\<lambda>i m.
            ebind (rd i j) (\<lambda>x. let value = \<bar>x\<bar> in Inr (if m < value then value else m))) m
          = Inr m'
       \<and> scanned val ({ilo..<ihi} \<times> {jlo..<j} \<union> {ilo..<ihi} \<times> {j}) m'"
  proof (rule for_loop_invariant
      [where I = "\<lambda>i m. scanned val ({ilo..<ihi} \<times> {jlo..<j} \<union> {ilo..<i} \<times> {j}) m"])
    show "scanned val ({ilo..<ihi} \<times> {jlo..<j} \<union> {ilo..<ilo} \<times> {j}) m"
      using m by simp
    show "ilo \<le> ihi" by (rule i)
    fix i m
    assume ir: "ilo \<le> i" "i < ihi"
      and m: "scanned val ({ilo..<ihi} \<times> {jlo..<j} \<union> {ilo..<i} \<times> {j}) m"
    have "{ilo..<ihi} \<times> {jlo..<j} \<union> {ilo..<i + 1} \<times> {j}
        = insert (i, j) ({ilo..<ihi} \<times> {jlo..<j} \<union> {ilo..<i} \<times> {j})"
      using ir by auto
    then show "\<exists>s'. ebind (rd i j) (\<lambda>x. let value = \<bar>x\<bar> in Inr (if m < value then value else m))
          = Inr s'
        \<and> scanned val ({ilo..<ihi} \<times> {jlo..<j} \<union> {ilo..<i + 1} \<times> {j}) s'"
      using rd [OF ir jr] scanned_step [OF m, of "(i, j)"] by (simp add: Let_def)
  qed
  moreover have "{ilo..<ihi} \<times> {jlo..<j} \<union> {ilo..<ihi} \<times> {j} = {ilo..<ihi} \<times> {jlo..<j + 1}"
    using jr by auto
  ultimately show "\<exists>s'. for_loop ilo ihi (\<lambda>i m.
            ebind (rd i j) (\<lambda>x. let value = \<bar>x\<bar> in Inr (if m < value then value else m))) m
          = Inr s'
       \<and> scanned val ({ilo..<ihi} \<times> {jlo..<j + 1}) s'"
    by simp
qed

lemma u_max_scanned:
  assumes "m_nCells d = (nx, ny)" "0 \<le> nx" "0 \<le> ny"
  shows "\<exists>m. u_max d = Inr m \<and> maxAbsU d m"
  unfolding u_max_def maxAbsU_def
  apply (rule scan_max)
  using assms apply (simp_all add: u_at_in inRangeU_def range_defs)
  done

lemma v_max_scanned:
  assumes "m_nCells d = (nx, ny)" "0 \<le> nx" "0 \<le> ny"
  shows "\<exists>m. v_max d = Inr m \<and> maxAbsV d m"
  unfolding v_max_def maxAbsV_def
  apply (rule scan_max)
  using assms apply (simp_all add: v_at_in inRangeV_def range_defs)
  done

section \<open>Properties of computeTimeStepWidth\<close>

lemma exampleBoundary_applied: "applyBoundaryValues exampleComputation = Inr exampleBoundary"
  using applyBoundaryValues_closed [OF exampleComputation_nCells]
  by (simp add: exampleBoundary_def exampleComputation_def)

lemma exampleBoundary_nCells: "m_nCells (m_discretization exampleBoundary) = (2, 2)"
  by (simp add: exampleBoundary_def exampleComputation_nCells)

lemmas example_defs = exampleBoundary_def exampleComputation_def exampleSettings_def
  StaggeredGrid_new_def FieldVariable_new_def

lemma exampleBoundary_u_max: "u_max (m_discretization exampleBoundary) = Inr (Finite 7)"
  by (simp add: u_max_def for_loop.simps range_defs u_at_def u_ref_def example_defs
      boundaryGrid_data closed_defs minus_double_def)

lemma exampleBoundary_v_max: "v_max (m_discretization exampleBoundary) = Inr (Finite 16)"
  by (simp add: v_max_def for_loop.simps range_defs v_at_def v_ref_def example_defs
      boundaryGrid_data closed_defs minus_double_def)

text \<open>The cavity example.\<close>

lemma cavityComputation_initialize: "initialize cavitySettings = Inr cavityComputation"
  by (simp add: initialize_def cavitySettings_def cavityComputation_def Let_def)

lemma cavityComputation_nCells: "m_nCells (m_discretization cavityComputation) = (2, 2)"
  by (simp add: cavityComputation_def StaggeredGrid_new_def)

lemma cavityBoundary_applied: "applyBoundaryValues cavityComputation = Inr cavityBoundary"
  using applyBoundaryValues_closed [OF cavityComputation_nCells]
  by (simp add: cavityBoundary_def cavityComputation_def)

lemma cavityBoundary_nCells: "m_nCells (m_discretization cavityBoundary) = (2, 2)"
  by (simp add: cavityBoundary_def cavityComputation_nCells)

lemmas cavity_defs = cavityBoundary_def cavityComputation_def cavitySettings_def
  StaggeredGrid_new_def FieldVariable_new_def

lemma cavityBoundary_u_max: "u_max (m_discretization cavityBoundary) = Inr (Finite 2)"
  by (simp add: u_max_def for_loop.simps range_defs u_at_def u_ref_def cavity_defs
      boundaryGrid_data closed_defs minus_double_def)

lemma cavityBoundary_v_max: "v_max (m_discretization cavityBoundary) = Inr (Finite 0)"
  by (simp add: v_max_def for_loop.simps range_defs v_at_def v_ref_def cavity_defs
      boundaryGrid_data closed_defs minus_double_def)

lemma std_min_capped: "\<not> b < std_min a b"
  by (simp add: std_min_def)

lemma std_min3_is_min:
  assumes "a \<noteq> NaN" "b \<noteq> NaN" "c \<noteq> NaN"
  shows "std_min3 a b c \<le> a \<and> std_min3 a b c \<le> b \<and> std_min3 a b c \<le> c
    \<and> (std_min3 a b c = a \<or> std_min3 a b c = b \<or> std_min3 a b c = c)"
  using assms
  by (cases a; cases b; cases c) (auto simp: std_min3_def less_eq_double_def Let_def)

lemma std_min3_PInf:
  "std_min3 a PInf c = std_min a c" "std_min3 a b PInf = std_min a b"
  by (cases a; cases c; simp add: std_min3_def std_min_def Let_def)
     (cases a; cases b; simp add: std_min3_def std_min_def Let_def)

lemma scanned_zero:
  assumes "scanned val S m" "\<forall>p\<in>S. val p = Finite 0"
  shows "m = Finite 0"
  using assms by (auto simp: scanned_def)

lemma scanned_ge0:
  assumes "scanned val S m"
  shows "(\<exists>r. m = Finite r \<and> 0 \<le> r) \<or> m = PInf"
proof -
  have "(\<exists>r. m = Finite r \<and> 0 \<le> r) \<or> m = PInf" if "Finite 0 < m"
    using that by (cases m) simp_all
  then show ?thesis
    using assms by (auto simp: scanned_def)
qed

lemma convection_bound_finite_or_PInf:
  assumes "0 < h" "(\<exists>r. m = Finite r \<and> 0 \<le> r) \<or> m = PInf"
  shows "(\<exists>r. Finite h / m = Finite r) \<or> Finite h / m = PInf"
  using assms by (cases m) auto

lemma boundary_diffusion_finite:
  assumes "m_meshWidth c = (Finite hx, Finite hy)" "0 < hx" "0 < hy"
    and "isFinite (re (m_settings c))"
  shows "isFinite (boundary_diffusion c)"
proof -
  have "hx * hx + hy * hy \<noteq> 0"
    using assms(2,3) by (metis add_pos_pos less_irrefl mult_pos_pos)
  then show ?thesis
    using assms by (cases "re (m_settings c)") (simp_all add: boundary_diffusion_def Let_def)
qed

lemma step_width_finite:
  assumes "isFinite a" "(\<exists>r. b = Finite r) \<or> b = PInf" "(\<exists>r. c = Finite r) \<or> c = PInf"
    "isFinite t" "isFinite M"
  shows "isFinite (std_min (std_min3 a b c * t) M)"
  using assms by (cases a; cases t; cases M) (auto simp: std_min_def std_min3_def Let_def)

text \<open>
  C3: for positive mesh widths \<open>dx\<close>, \<open>dy\<close> and a Reynolds number \<open>Re\<close> the diffusion bound
  is \<open>Re dx\<^sup>2 / 4\<close> when \<open>dx == dy\<close> and \<open>(Re / 2) dx\<^sup>2 dy\<^sup>2 / (dx\<^sup>2 + dy\<^sup>2)\<close> otherwise.
\<close>

theorem C3_diffusion_bound:
  assumes "m_meshWidth c = (Finite hx, Finite hy)" "0 < hx" "0 < hy"
    and "re (m_settings c) = Finite r"
  shows "(deq (fst (m_meshWidth c)) (snd (m_meshWidth c)) \<longleftrightarrow> hx = hy)
    \<and> (hx = hy \<longrightarrow> boundary_diffusion c = Finite (r * hx\<^sup>2 / 4))
    \<and> (hx \<noteq> hy \<longrightarrow>
         boundary_diffusion c = Finite ((r / 2) * (hx\<^sup>2 * hy\<^sup>2) / (hx\<^sup>2 + hy\<^sup>2)))"
proof -
  have "hx * hx + hy * hy \<noteq> 0"
    using assms(2,3) by (metis add_pos_pos less_irrefl mult_pos_pos)
  then show ?thesis
    using assms by (simp add: boundary_diffusion_def deq_def power2_eq_square Let_def)
qed


text \<open>
  With \<open>Re = 1000\<close>: the square mesh \<open>dx = dy = 0.1\<close> and the mesh \<open>dx = 0.1\<close>, \<open>dy = 0.2\<close>.
\<close>

theorem C3_diffusion_bound_witness:
  "boundary_diffusion (exampleComputation\<lparr>m_meshWidth := (Finite (1 / 10), Finite (1 / 10))\<rparr>)
     = Finite (5 / 2)
   \<and> boundary_diffusion (exampleComputation\<lparr>m_meshWidth := (Finite (1 / 10), Finite (2 / 10))\<rparr>)
     = Finite 4"
proof -
  have r: "re (m_settings (exampleComputation\<lparr>m_meshWidth := w\<rparr>)) = Finite 1000" for w
    by (simp add: example_defs)
  show ?thesis
    using C3_diffusion_bound [of "exampleComputation\<lparr>m_meshWidth := (Finite (1 / 10), Finite (1 / 10))\<rparr>"
        "1 / 10" "1 / 10" 1000]
      C3_diffusion_bound [of "exampleComputation\<lparr>m_meshWidth := (Finite (1 / 10), Finite (2 / 10))\<rparr>"
        "1 / 10" "2 / 10" 1000] r
    by (simp add: power2_eq_square)
qed

text \<open>
  C6: computeTimeStepWidth returns, and the step width it stores is the minimum
  (\<^verbatim>\<open>std::min\<close>) of the diffusion bound, \<open>dx / um\<close> and \<open>dy / vm\<close>, times \<open>tau\<close>, capped
  (\<^verbatim>\<open>std::min\<close>) at \<open>maximumDt\<close>, where \<open>um\<close> and \<open>vm\<close> are the results of the two scans:
  the maximum absolute value of \<open>u\<close> and of \<open>v\<close> over the whole logical range of the
  field, ghost layers included.
\<close>

theorem C6_time_step_width:
  assumes "m_nCells (m_discretization c) = (nx, ny)" "0 \<le> nx" "0 \<le> ny"
  shows "\<exists>um vm c'.
      u_max (m_discretization c) = Inr um \<and> maxAbsU (m_discretization c) um
    \<and> v_max (m_discretization c) = Inr vm \<and> maxAbsV (m_discretization c) vm
    \<and> computeTimeStepWidth c = Inr c'
    \<and> c' = c\<lparr>m_dt := std_min
           (std_min3 (boundary_diffusion c) (fst (m_meshWidth c) / um)
              (snd (m_meshWidth c) / vm) * tau (m_settings c))
           (maximumDt (m_settings c))\<rparr>
    \<and> \<not> maximumDt (m_settings c) < m_dt c'
    \<and> (boundary_diffusion c \<noteq> NaN \<and> fst (m_meshWidth c) / um \<noteq> NaN
         \<and> snd (m_meshWidth c) / vm \<noteq> NaN \<longrightarrow>
       std_min3 (boundary_diffusion c) (fst (m_meshWidth c) / um) (snd (m_meshWidth c) / vm)
         \<le> boundary_diffusion c
       \<and> std_min3 (boundary_diffusion c) (fst (m_meshWidth c) / um) (snd (m_meshWidth c) / vm)
         \<le> fst (m_meshWidth c) / um
       \<and> std_min3 (boundary_diffusion c) (fst (m_meshWidth c) / um) (snd (m_meshWidth c) / vm)
         \<le> snd (m_meshWidth c) / vm)"
proof -
  obtain um where um: "u_max (m_discretization c) = Inr um" "maxAbsU (m_discretization c) um"
    using u_max_scanned [OF assms] by auto
  obtain vm where vm: "v_max (m_discretization c) = Inr vm" "maxAbsV (m_discretization c) vm"
    using v_max_scanned [OF assms] by auto
  show ?thesis
    using um vm std_min3_is_min [of "boundary_diffusion c" "fst (m_meshWidth c) / um"
        "snd (m_meshWidth c) / vm"]
    by (simp add: computeTimeStepWidth_def boundary_convection_u_def
        boundary_convection_v_def std_min_capped)
qed


text \<open>
  On the example after applyBoundaryValues: the maxima are 7 and 16, the bounds 250, 1 / 7
  and 1 / 16, and the step width is \<open>min (1 / 16 * 1 / 2) (1 / 10) = 1 / 32\<close>.
\<close>

theorem C6_time_step_width_witness:
  "u_max (m_discretization exampleBoundary) = Inr (Finite 7)
   \<and> maxAbsU (m_discretization exampleBoundary) (Finite 7)
   \<and> v_max (m_discretization exampleBoundary) = Inr (Finite 16)
   \<and> maxAbsV (m_discretization exampleBoundary) (Finite 16)
   \<and> boundary_diffusion exampleBoundary = Finite 250
   \<and> computeTimeStepWidth exampleBoundary
       = Inr (exampleBoundary\<lparr>m_dt := std_min
            (std_min3 (Finite 250) (Finite (1 / 7)) (Finite (1 / 16)) * Finite (1 / 2))
            (Finite (1 / 10))\<rparr>)
   \<and> std_min (std_min3 (Finite 250) (Finite (1 / 7)) (Finite (1 / 16)) * Finite (1 / 2))
        (Finite (1 / 10)) = Finite (1 / 32)"
proof -
  have s: "m_meshWidth exampleBoundary = (Finite 1, Finite 1)"
    "tau (m_settings exampleBoundary) = Finite (1 / 2)"
    "maximumDt (m_settings exampleBoundary) = Finite (1 / 10)"
    "boundary_diffusion exampleBoundary = Finite 250"
    by (simp_all add: example_defs boundary_diffusion_def deq_def)
  have m: "std_min (std_min3 (Finite 250) (Finite (1 / 7)) (Finite (1 / 16)) * Finite (1 / 2))
        (Finite (1 / 10)) = Finite (1 / 32)"
    by (simp add: std_min_def std_min3_def)
  show ?thesis
    using C6_time_step_width [OF exampleBoundary_nCells] exampleBoundary_u_max
      exampleBoundary_v_max s m
    by auto
qed

text \<open>
  C2, as the spec states it: a velocity maximum of zero is guarded, and the convection
  bound is not a division by zero. In the first round of the lid-driven cavity, after
  applyBoundaryValues, every \<open>v\<close> is zero: the scan of \<open>v\<close> returns 0 and the bound is
  \<open>dy / 0\<close>, which is \<open>+\<infinity>\<close>.
\<close>

theorem C2_zero_velocity_counterexample:
  "applyBoundaryValues cavityComputation = Inr cavityBoundary
   \<and> v_max (m_discretization cavityBoundary) = Inr (Finite 0)
   \<and> boundary_convection_v cavityBoundary (Finite 0) = PInf
   \<and> \<not> isFinite (boundary_convection_v cavityBoundary (Finite 0))"
  using cavityBoundary_applied cavityBoundary_v_max
  by (simp add: boundary_convection_v_def cavity_defs)

text \<open>
  C2, amended: there is no guard. With positive mesh widths a velocity maximum of zero
  makes the convection bound \<open>+\<infinity>\<close>, which \<^verbatim>\<open>std::min\<close> passes over, so that the term puts
  no constraint on the step width; and with finite \<open>Re\<close>, \<open>tau\<close> and \<open>maximumDt\<close> the step
  width that computeTimeStepWidth stores is finite, whatever the velocities.
\<close>

theorem C2_zero_velocity_no_constraint:
  assumes "m_nCells (m_discretization c) = (nx, ny)" "0 \<le> nx" "0 \<le> ny"
    and "m_meshWidth c = (Finite hx, Finite hy)" "0 < hx" "0 < hy"
    and "isFinite (re (m_settings c))" "isFinite (tau (m_settings c))"
      "isFinite (maximumDt (m_settings c))"
  shows "\<exists>um vm c'.
      u_max (m_discretization c) = Inr um \<and> v_max (m_discretization c) = Inr vm
    \<and> computeTimeStepWidth c = Inr c' \<and> isFinite (m_dt c')
    \<and> (um = Finite 0 \<longrightarrow>
         boundary_convection_u c um = PInf
         \<and> m_dt c' = std_min (std_min (boundary_diffusion c) (boundary_convection_v c vm)
                        * tau (m_settings c)) (maximumDt (m_settings c)))
    \<and> (vm = Finite 0 \<longrightarrow>
         boundary_convection_v c vm = PInf
         \<and> m_dt c' = std_min (std_min (boundary_diffusion c) (boundary_convection_u c um)
                        * tau (m_settings c)) (maximumDt (m_settings c)))"
proof -
  obtain um where um: "u_max (m_discretization c) = Inr um" "maxAbsU (m_discretization c) um"
    using u_max_scanned [OF assms(1-3)] by auto
  obtain vm where vm: "v_max (m_discretization c) = Inr vm" "maxAbsV (m_discretization c) vm"
    using v_max_scanned [OF assms(1-3)] by auto
  have bu: "(\<exists>r. boundary_convection_u c um = Finite r) \<or> boundary_convection_u c um = PInf"
    using convection_bound_finite_or_PInf [OF assms(5) scanned_ge0] um(2) assms(4)
    by (simp add: boundary_convection_u_def maxAbsU_def)
  have bv: "(\<exists>r. boundary_convection_v c vm = Finite r) \<or> boundary_convection_v c vm = PInf"
    using convection_bound_finite_or_PInf [OF assms(6) scanned_ge0] vm(2) assms(4)
    by (simp add: boundary_convection_v_def maxAbsV_def)
  have fin: "isFinite (std_min (std_min3 (boundary_diffusion c) (boundary_convection_u c um)
      (boundary_convection_v c vm) * tau (m_settings c)) (maximumDt (m_settings c)))"
    by (rule step_width_finite [OF boundary_diffusion_finite [OF assms(4-7)] bu bv assms(8,9)])
  have zu: "boundary_convection_u c (Finite 0) = PInf"
    and zv: "boundary_convection_v c (Finite 0) = PInf"
    using assms(4-6) by (simp_all add: boundary_convection_u_def boundary_convection_v_def)
  show ?thesis
    using um(1) vm(1) fin zu zv
    by (auto simp add: computeTimeStepWidth_def std_min3_PInf)
qed

text \<open>
  On the cavity the bound of \<open>v\<close> is infinite, the bound of \<open>u\<close> is 1 / 2, and the step
  width is the cap 1 / 10.
\<close>

theorem C2_zero_velocity_no_constraint_witness:
  "u_max (m_discretization cavityBoundary) = Inr (Finite 2)
   \<and> v_max (m_discretization cavityBoundary) = Inr (Finite 0)
   \<and> boundary_convection_v cavityBoundary (Finite 0) = PInf
   \<and> boundary_diffusion cavityBoundary = Finite 250
   \<and> boundary_convection_u cavityBoundary (Finite 2) = Finite (1 / 2)
   \<and> computeTimeStepWidth cavityBoundary = Inr (cavityBoundary\<lparr>m_dt := Finite (1 / 10)\<rparr>)"
proof -
  have s: "m_meshWidth cavityBoundary = (Finite 1, Finite 1)"
    "re (m_settings cavityBoundary) = Finite 1000"
    "tau (m_settings cavityBoundary) = Finite (1 / 2)"
    "maximumDt (m_settings cavityBoundary) = Finite (1 / 10)"
    "boundary_diffusion cavityBoundary = Finite 250"
    by (simp_all add: cavity_defs boundary_diffusion_def deq_def)
  have c: "computeTimeStepWidth cavityBoundary
      = Inr (cavityBoundary\<lparr>m_dt := Finite (1 / 10)\<rparr>)"
    using cavityBoundary_u_max cavityBoundary_v_max s
    by (simp add: computeTimeStepWidth_def boundary_convection_u_def
        boundary_convection_v_def std_min_def std_min3_def)
  show ?thesis
    using C2_zero_velocity_no_constraint [OF cavityBoundary_nCells _ _ s(1)]
      cavityBoundary_u_max cavityBoundary_v_max s c
    by (auto simp add: boundary_convection_u_def)
qed

section \<open>Properties of computePreliminaryVelocities\<close>

lemma interiorSweep_0: "interiorSweep ihi 0 0 val D = D"
  by (auto simp: interiorSweep_def fun_eq_iff)

lemma interiorSweep_step:
  "0 \<le> i \<Longrightarrow> i < ihi \<Longrightarrow> 0 \<le> j \<Longrightarrow>
   (interiorSweep ihi j i val D)((i + 1, j + 1) := val i j) = interiorSweep ihi j (i + 1) val D"
  by (auto simp: interiorSweep_def fun_eq_iff)

lemma interiorSweep_row:
  "0 \<le> j \<Longrightarrow> interiorSweep ihi j ihi val D = interiorSweep ihi (j + 1) 0 val D"
  by (auto simp: interiorSweep_def fun_eq_iff)

lemma readsVelocitiesOnlyD:
  "readsVelocitiesOnly op \<Longrightarrow> m_u d' = m_u d \<Longrightarrow> m_v d' = m_v d \<Longrightarrow>
   m_nCells d' = m_nCells d \<Longrightarrow> StaggeredGrid.m_meshWidth d' = StaggeredGrid.m_meshWidth d \<Longrightarrow>
   op d' = op d"
  unfolding readsVelocitiesOnly_def by blast

lemma computeF_step:
  assumes n: "m_nCells (m_discretization c) = (nx, ny)"
    and ops: "velocityOperators ops"
    and i: "0 \<le> i" "i < nx - 1" and j: "0 \<le> j" "j < ny"
    and d: "d = withF (m_discretization c) D"
  shows "computeF ops (m_settings c) (m_dt c) j i d
    = Inr (withF (m_discretization c) (D((i + 1, j + 1) := predictedF ops c i j)))"
proof -
  have same: "op d = op (m_discretization c)" if "readsVelocitiesOnly op" for op
    by (rule readsVelocitiesOnlyD [OF that]) (simp_all add: d withF_def)
  have r: "inRangeU d i j"
    using i j n by (simp add: inRangeU_def range_defs d withF_def)
  have u: "m_data (m_u d) = m_data (m_u (m_discretization c))"
    by (simp add: d withF_def)
  have o: "computeD2uDx2 ops d = computeD2uDx2 ops (m_discretization c)"
    "computeD2uDy2 ops d = computeD2uDy2 ops (m_discretization c)"
    "computeDu2Dx ops d = computeDu2Dx ops (m_discretization c)"
    "computeDuvDy ops d = computeDuvDy ops (m_discretization c)"
    using ops by (simp_all add: velocityOperators_def same)
  have "computeF ops (m_settings c) (m_dt c) j i d
      = f_set d i j (predictedF ops c i j)"
    by (simp add: computeF_def o Let_def u_at_in [OF r] u predictedF_def)
  also have "\<dots> = Inr (withF (m_discretization c) (D((i + 1, j + 1) := predictedF ops c i j)))"
    by (simp add: f_set_in [OF r] put_def) (simp add: d withF_def)
  finally show ?thesis .
qed


lemma computeG_step:
  assumes n: "m_nCells (m_discretization c) = (nx, ny)"
    and ops: "velocityOperators ops"
    and i: "0 \<le> i" "i < nx" and j: "0 \<le> j" "j < ny - 1"
    and d: "d = withG (m_discretization c) D"
  shows "computeG ops (m_settings c) (m_dt c) j i d
    = Inr (withG (m_discretization c) (D((i + 1, j + 1) := predictedG ops c i j)))"
proof -
  have same: "op d = op (m_discretization c)" if "readsVelocitiesOnly op" for op
    by (rule readsVelocitiesOnlyD [OF that]) (simp_all add: d withG_def)
  have r: "inRangeV d i j"
    using i j n by (simp add: inRangeV_def range_defs d withG_def)
  have v: "m_data (m_v d) = m_data (m_v (m_discretization c))"
    by (simp add: d withG_def)
  have o: "computeD2vDx2 ops d = computeD2vDx2 ops (m_discretization c)"
    "computeD2vDy2 ops d = computeD2vDy2 ops (m_discretization c)"
    "computeDuvDx ops d = computeDuvDx ops (m_discretization c)"
    "computeDv2Dy ops d = computeDv2Dy ops (m_discretization c)"
    using ops by (simp_all add: velocityOperators_def same)
  have "computeG ops (m_settings c) (m_dt c) j i d
      = g_set d i j (predictedG ops c i j)"
    by (simp add: computeG_def o Let_def v_at_in [OF r] v predictedG_def)
  also have "\<dots> = Inr (withG (m_discretization c) (D((i + 1, j + 1) := predictedG ops c i j)))"
    by (simp add: g_set_in [OF r] put_def) (simp add: d withG_def)
  finally show ?thesis .
qed

lemma loopF:
  assumes n: "m_nCells (m_discretization c) = (nx, ny)" and nx: "1 \<le> nx" and ny: "0 \<le> ny"
    and ops: "velocityOperators ops"
  shows "for_loop (uJBegin (m_discretization c) + 1) (uJEnd (m_discretization c) - 1)
        (\<lambda>j d. for_loop (uIBegin d + 1) (uIEnd d - 1)
           (computeF ops (m_settings c) (m_dt c) j) d)
        (m_discretization c)
    = Inr (withF (m_discretization c)
        (interiorSweep (nx - 1) ny 0 (predictedF ops c) (m_data (m_f (m_discretization c)))))"
proof -
  let ?d = "m_discretization c"
  let ?cl = "\<lambda>j i. withF ?d (interiorSweep (nx - 1) j i (predictedF ops c) (m_data (m_f ?d)))"
  have inner: "for_loop (uIBegin (?cl j 0) + 1) (uIEnd (?cl j 0) - 1)
      (computeF ops (m_settings c) (m_dt c) j) (?cl j 0) = Inr (?cl (j + 1) 0)"
    if j: "0 \<le> j" "j < ny" for j
  proof -
    have "for_loop 0 (nx - 1) (computeF ops (m_settings c) (m_dt c) j) (?cl j 0)
        = Inr (?cl j (nx - 1))"
    proof (rule for_loop_closed)
      fix i :: int
      assume i: "0 \<le> i" "i < nx - 1"
      show "computeF ops (m_settings c) (m_dt c) j i (?cl j i) = Inr (?cl j (i + 1))"
        using computeF_step [OF n ops i j refl]
          interiorSweep_step [OF i j(1), of "predictedF ops c" "m_data (m_f ?d)"]
        by simp
    qed (use nx in simp)
    then show ?thesis
      using n interiorSweep_row [OF j(1), of "nx - 1" "predictedF ops c" "m_data (m_f ?d)"]
      by (simp add: range_defs withF_def)
  qed
  have "for_loop 0 ny (\<lambda>j d. for_loop (uIBegin d + 1) (uIEnd d - 1)
           (computeF ops (m_settings c) (m_dt c) j) d) (?cl 0 0) = Inr (?cl ny 0)"
    by (rule for_loop_closed [where cl = "\<lambda>j. ?cl j 0"]) (use inner ny in simp_all)
  then show ?thesis
    using n by (simp add: interiorSweep_0 withF_def range_defs)
qed

lemma loopG:
  assumes n: "m_nCells (m_discretization c) = (nx, ny)" and nx: "0 \<le> nx" and ny: "1 \<le> ny"
    and ops: "velocityOperators ops"
  shows "for_loop (vJBegin (m_discretization c) + 1) (vJEnd (m_discretization c) - 1)
        (\<lambda>j d. for_loop (vIBegin d + 1) (vIEnd d - 1)
           (computeG ops (m_settings c) (m_dt c) j) d)
        (m_discretization c)
    = Inr (withG (m_discretization c)
        (interiorSweep nx (ny - 1) 0 (predictedG ops c) (m_data (m_g (m_discretization c)))))"
proof -
  let ?d = "m_discretization c"
  let ?cl = "\<lambda>j i. withG ?d (interiorSweep nx j i (predictedG ops c) (m_data (m_g ?d)))"
  have inner: "for_loop (vIBegin (?cl j 0) + 1) (vIEnd (?cl j 0) - 1)
      (computeG ops (m_settings c) (m_dt c) j) (?cl j 0) = Inr (?cl (j + 1) 0)"
    if j: "0 \<le> j" "j < ny - 1" for j
  proof -
    have "for_loop 0 nx (computeG ops (m_settings c) (m_dt c) j) (?cl j 0)
        = Inr (?cl j nx)"
    proof (rule for_loop_closed)
      fix i :: int
      assume i: "0 \<le> i" "i < nx"
      show "computeG ops (m_settings c) (m_dt c) j i (?cl j i) = Inr (?cl j (i + 1))"
        using computeG_step [OF n ops i j refl]
          interiorSweep_step [OF i j(1), of "predictedG ops c" "m_data (m_g ?d)"]
        by simp
    qed (use nx in simp)
    then show ?thesis
      using n interiorSweep_row [OF j(1), of nx "predictedG ops c" "m_data (m_g ?d)"]
      by (simp add: range_defs withG_def)
  qed
  have "for_loop 0 (ny - 1) (\<lambda>j d. for_loop (vIBegin d + 1) (vIEnd d - 1)
           (computeG ops (m_settings c) (m_dt c) j) d) (?cl 0 0) = Inr (?cl (ny - 1) 0)"
    by (rule for_loop_closed [where cl = "\<lambda>j. ?cl j 0"]) (use inner ny in simp_all)
  then show ?thesis
    using n by (simp add: interiorSweep_0 withG_def range_defs)
qed


lemma uminus_plus_double: "- (a + b) = - a + - (b::double)"
  by (cases a; cases b) simp_all

lemma convection_sign: "x + (- a - b) = x - (a + (b::double))"
  by (simp add: minus_double_def uminus_plus_double)

lemma predictedG_same:
  assumes "velocityOperators ops"
  shows "predictedG ops (c\<lparr>m_discretization := withF (m_discretization c) D\<rparr>)
    = predictedG ops c"
proof -
  have same: "op (withF (m_discretization c) D) = op (m_discretization c)"
    if "readsVelocitiesOnly op" for op
    by (rule readsVelocitiesOnlyD [OF that]) (simp_all add: withF_def)
  have o: "computeD2vDx2 ops (withF (m_discretization c) D)
      = computeD2vDx2 ops (m_discretization c)"
    "computeD2vDy2 ops (withF (m_discretization c) D) = computeD2vDy2 ops (m_discretization c)"
    "computeDuvDx ops (withF (m_discretization c) D) = computeDuvDx ops (m_discretization c)"
    "computeDv2Dy ops (withF (m_discretization c) D) = computeDv2Dy ops (m_discretization c)"
    using assms by (simp_all add: velocityOperators_def same)
  show ?thesis
    by (simp add: predictedG_def fun_eq_iff o) (simp add: withF_def)
qed

lemma computePreliminaryVelocities_closed:
  assumes n: "m_nCells (m_discretization c) = (nx, ny)" and nx: "1 \<le> nx" and ny: "1 \<le> ny"
    and ops: "velocityOperators ops"
  shows "computePreliminaryVelocities ops c
    = Inr (c\<lparr>m_discretization :=
        withG (withF (m_discretization c)
          (interiorSweep (nx - 1) ny 0 (predictedF ops c) (m_data (m_f (m_discretization c)))))
          (interiorSweep nx (ny - 1) 0 (predictedG ops c)
             (m_data (m_g (m_discretization c))))\<rparr>)"
proof -
  define F where "F = interiorSweep (nx - 1) ny 0 (predictedF ops c)
      (m_data (m_f (m_discretization c)))"
  define c1 where "c1 = c\<lparr>m_discretization := withF (m_discretization c) F\<rparr>"
  have n1: "m_nCells (m_discretization c1) = (nx, ny)"
    using n by (simp add: c1_def withF_def)
  have nx0: "0 \<le> nx" and ny0: "0 \<le> ny"
    using nx ny by simp_all
  have f: "for_loop (uJBegin (m_discretization c) + 1) (uJEnd (m_discretization c) - 1)
        (\<lambda>j d. for_loop (uIBegin d + 1) (uIEnd d - 1)
           (computeF ops (m_settings c) (m_dt c) j) d)
        (m_discretization c) = Inr (m_discretization c1)"
    using loopF [OF n nx ny0 ops] by (simp add: c1_def F_def)
  have g: "for_loop (vJBegin (m_discretization c1) + 1) (vJEnd (m_discretization c1) - 1)
        (\<lambda>j d. for_loop (vIBegin d + 1) (vIEnd d - 1)
           (computeG ops (m_settings c) (m_dt c) j) d)
        (m_discretization c1)
      = Inr (withG (m_discretization c1)
        (interiorSweep nx (ny - 1) 0 (predictedG ops c) (m_data (m_g (m_discretization c)))))"
    using loopG [OF n1 nx0 ny ops] predictedG_same [OF ops, of c F]
    by (simp add: c1_def) (simp add: withF_def)
  show ?thesis
    by (simp add: computePreliminaryVelocities_def f g) (simp add: c1_def F_def)
qed

text \<open>
  C7: with derivative operators that read the velocities, computePreliminaryVelocities
  returns, and it has set \<open>f\<close> at every interior cell \<open>(i, j)\<close> of the \<open>u\<close>-range to
  \<open>u(i, j) + dt ((1 / Re) (d\<^sup>2u/dx\<^sup>2 + d\<^sup>2u/dy\<^sup>2) - (du\<^sup>2/dx + duv/dy) + g\<^sub>x)\<close> and \<open>g\<close> at every
  interior cell of the \<open>v\<close>-range to the same with the operators of \<open>v\<close> and \<open>g\<^sub>y\<close>, the
  operators being those of the variant \<open>ops\<close>, evaluated on the grid at the call. The
  other cells of \<open>f\<close> and \<open>g\<close> and the other fields stay.
\<close>

theorem C7_preliminary_velocities:
  assumes "m_nCells (m_discretization c) = (nx, ny)" "1 \<le> nx" "1 \<le> ny"
    and "velocityOperators ops"
  shows "\<exists>c'. computePreliminaryVelocities ops c = Inr c'
    \<and> (\<forall>i j. interiorU (m_discretization c) i j \<longrightarrow>
          (\<exists>a. u_at (m_discretization c) i j = Inr a
             \<and> f_at (m_discretization c') i j
               = Inr (a + m_dt c *
                   ((Finite 1 / re (m_settings c))
                      * (computeD2uDx2 ops (m_discretization c) i j
                         + computeD2uDy2 ops (m_discretization c) i j)
                    - (computeDu2Dx ops (m_discretization c) i j
                       + computeDuvDy ops (m_discretization c) i j)
                    + fst (g (m_settings c))))))
    \<and> (\<forall>i j. interiorV (m_discretization c) i j \<longrightarrow>
          (\<exists>a. v_at (m_discretization c) i j = Inr a
             \<and> g_at (m_discretization c') i j
               = Inr (a + m_dt c *
                   ((Finite 1 / re (m_settings c))
                      * (computeD2vDx2 ops (m_discretization c) i j
                         + computeD2vDy2 ops (m_discretization c) i j)
                    - (computeDuvDx ops (m_discretization c) i j
                       + computeDv2Dy ops (m_discretization c) i j)
                    + snd (g (m_settings c))))))
    \<and> (\<forall>i j. \<not> interiorU (m_discretization c) i j \<longrightarrow>
          f_at (m_discretization c') i j = f_at (m_discretization c) i j)
    \<and> (\<forall>i j. \<not> interiorV (m_discretization c) i j \<longrightarrow>
          g_at (m_discretization c') i j = g_at (m_discretization c) i j)
    \<and> m_u (m_discretization c') = m_u (m_discretization c)
    \<and> m_v (m_discretization c') = m_v (m_discretization c)
    \<and> m_p (m_discretization c') = m_p (m_discretization c)
    \<and> m_rhs (m_discretization c') = m_rhs (m_discretization c)
    \<and> m_dt c' = m_dt c \<and> m_settings c' = m_settings c"
  using assms(1-3)
  by (auto simp add: computePreliminaryVelocities_closed [OF assms] with_defs interiorU_def
      interiorV_def at_in inRange_defs range_defs interiorSweep_def predictedF_def
      predictedG_def convection_sign f_at_def g_at_def ref_defs)

lemma exampleOps_velocityOperators: "velocityOperators exampleOps"
  by (simp add: velocityOperators_def readsVelocitiesOnly_def exampleOps_def)

text \<open>
  On the example after applyBoundaryValues, with the step width 1 / 32 and the stand-in
  operators: an interior cell of \<open>u\<close> and an interior cell of \<open>v\<close>.
\<close>

theorem C7_preliminary_velocities_witness:
  "\<exists>c'. computePreliminaryVelocities exampleOps (exampleBoundary\<lparr>m_dt := Finite (1 / 32)\<rparr>)
       = Inr c'
     \<and> interiorU (m_discretization exampleBoundary) 0 0
     \<and> f_at (m_discretization c') 0 0 = Inr (Finite (7 / 32000))
     \<and> interiorV (m_discretization exampleBoundary) 1 0
     \<and> g_at (m_discretization c') 1 0 = Inr (Finite (1 / 1600))"
proof -
  let ?c = "exampleBoundary\<lparr>m_dt := Finite (1 / 32)\<rparr>"
  have n: "m_nCells (m_discretization ?c) = (2, 2)"
    by (simp add: exampleBoundary_nCells)
  have i: "interiorU (m_discretization ?c) 0 0" "interiorV (m_discretization ?c) 1 0"
    using n by (simp_all add: interiorU_def interiorV_def range_defs)
  have v: "u_at (m_discretization exampleBoundary) 0 0 = Inr (Finite 0)"
    "v_at (m_discretization exampleBoundary) 1 0 = Inr (Finite 0)"
    "computeD2uDx2 exampleOps (m_discretization exampleBoundary) 0 0 = Finite 7"
    "computeD2uDy2 exampleOps (m_discretization exampleBoundary) 0 0 = Finite 0"
    "computeDu2Dx exampleOps (m_discretization exampleBoundary) 0 0 = Finite 0"
    "computeDuvDy exampleOps (m_discretization exampleBoundary) 0 0 = Finite 0"
    "computeD2vDx2 exampleOps (m_discretization exampleBoundary) 1 0 = Finite 16"
    "computeD2vDy2 exampleOps (m_discretization exampleBoundary) 1 0 = Finite 4"
    "computeDuvDx exampleOps (m_discretization exampleBoundary) 1 0 = Finite 0"
    "computeDv2Dy exampleOps (m_discretization exampleBoundary) 1 0 = Finite 0"
    "re (m_settings exampleBoundary) = Finite 1000" "g (m_settings exampleBoundary) = (Finite 0, Finite 0)"
    by (simp_all add: u_at_def v_at_def ref_defs range_defs example_defs exampleOps_def
        boundaryGrid_data closed_defs minus_double_def)
  obtain c' where c': "computePreliminaryVelocities exampleOps ?c = Inr c'"
    and f: "\<forall>i j. interiorU (m_discretization ?c) i j \<longrightarrow>
          (\<exists>a. u_at (m_discretization ?c) i j = Inr a
             \<and> f_at (m_discretization c') i j
               = Inr (a + m_dt ?c *
                   ((Finite 1 / re (m_settings ?c))
                      * (computeD2uDx2 exampleOps (m_discretization ?c) i j
                         + computeD2uDy2 exampleOps (m_discretization ?c) i j)
                    - (computeDu2Dx exampleOps (m_discretization ?c) i j
                       + computeDuvDy exampleOps (m_discretization ?c) i j)
                    + fst (g (m_settings ?c)))))"
    and g: "\<forall>i j. interiorV (m_discretization ?c) i j \<longrightarrow>
          (\<exists>a. v_at (m_discretization ?c) i j = Inr a
             \<and> g_at (m_discretization c') i j
               = Inr (a + m_dt ?c *
                   ((Finite 1 / re (m_settings ?c))
                      * (computeD2vDx2 exampleOps (m_discretization ?c) i j
                         + computeD2vDy2 exampleOps (m_discretization ?c) i j)
                    - (computeDuvDx exampleOps (m_discretization ?c) i j
                       + computeDv2Dy exampleOps (m_discretization ?c) i j)
                    + snd (g (m_settings ?c)))))"
    using C7_preliminary_velocities [OF n _ _ exampleOps_velocityOperators]
    by auto
  have "f_at (m_discretization c') 0 0 = Inr (Finite (7 / 32000))"
    using f [rule_format, OF i(1)] by (simp add: v minus_double_def)
  moreover have "g_at (m_discretization c') 1 0 = Inr (Finite (1 / 1600))"
    using g [rule_format, OF i(2)] by (simp add: v minus_double_def)
  ultimately show ?thesis
    using c' i by simp
qed

section \<open>Properties of runSimulation\<close>






lemma computeTimeStepWidth_returns:
  assumes "m_nCells (m_discretization c) = (nx, ny)" "0 \<le> nx" "0 \<le> ny"
  shows "\<exists>dt. computeTimeStepWidth c = Inr (c\<lparr>m_dt := dt\<rparr>)"
proof -
  obtain um where um: "u_max (m_discretization c) = Inr um"
    using u_max_scanned [OF assms] by auto
  obtain vm where vm: "v_max (m_discretization c) = Inr vm"
    using v_max_scanned [OF assms] by auto
  show ?thesis
    by (simp add: computeTimeStepWidth_def um vm) blast
qed


section \<open>Rounding\<close>









lemma restComputation_initialize: "initialize restSettings = Inr restComputation"
  by (simp add: initialize_def restSettings_def restComputation_def Let_def)





















end
